theory Spec2Isabelle
  imports Complex_Main "HOL-Library.AList" "HOL-Library.Sublist" "HOL-Library.Multiset"
begin

section \<open>The value model\<close>

text \<open>
  The engine of \<^verbatim>\<open>src/utils/sqlEngine.ts\<close> works on rows of type \<^verbatim>\<open>any\<close>. A cell is one of
  the JavaScript primitives: \<^verbatim>\<open>undefined\<close> (what reading a missing property gives),
  \<^verbatim>\<open>null\<close>, a boolean, a number or a string.

  Numbers are modelled with exact rational arithmetic plus \<^verbatim>\<open>NaN\<close> and the two
  infinities: IEEE rounding and the sign of zero are not modelled, and no statement
  below depends on the digits an arithmetic operation produces.
  Strings are lists of 8-bit characters; the character predicates and case
  conversions below are those of JavaScript on ASCII text, and other characters are
  left unchanged.
\<close>

datatype jsnum = NaN | NegInf | Fin rat | PosInf

datatype jsval = JUndefined | JNull | JBool bool | JNum jsnum | JStr string

text \<open>
  A row is a JavaScript object used as a record: its own properties in insertion
  order.  \<^verbatim>\<open>row[col]\<close> is \<open>getProp\<close>, \<^verbatim>\<open>row[col] = v\<close> is \<open>setProp\<close>,
  \<^verbatim>\<open>row.hasOwnProperty(col)\<close> is \<open>hasOwnProperty\<close>.  Column names are assumed not to
  collide with the properties every object inherits (\<^verbatim>\<open>constructor\<close>, \<^verbatim>\<open>toString\<close>, ...).
\<close>

type_synonym row = "(string \<times> jsval) list"

definition getProp :: "row \<Rightarrow> string \<Rightarrow> jsval" where
  "getProp r k = (case map_of r k of None \<Rightarrow> JUndefined | Some v \<Rightarrow> v)"

definition setProp :: "row \<Rightarrow> string \<Rightarrow> jsval \<Rightarrow> row" where
  "setProp r k v = AList.update k v r"

definition hasOwnProperty :: "row \<Rightarrow> string \<Rightarrow> bool" where
  "hasOwnProperty r k = (map_of r k \<noteq> None)"

text \<open>
  The conversions between strings and numbers and the locale's collation belong to
  the JavaScript host, not to the repository.  They are parameters of the model: every
  function of the engine that reaches one of them takes the host as its first argument,
  and the general theorems hold for every host; the concrete examples use the reference
  host defined further down.
\<close>

record host =
  parseFloat :: "string \<Rightarrow> jsnum"
  stringToNumber :: "string \<Rightarrow> jsnum"
  numberToString :: "jsnum \<Rightarrow> string"
  localeCompare :: "string \<Rightarrow> string \<Rightarrow> int"

subsection \<open>Number operations\<close>

text \<open>\<^verbatim>\<open>x < y\<close> on numbers: \<open>None\<close> is the undefined result a \<^verbatim>\<open>NaN\<close> operand gives.\<close>

fun numLess :: "jsnum \<Rightarrow> jsnum \<Rightarrow> bool option" where
  "numLess NaN _ = None"
| "numLess _ NaN = None"
| "numLess NegInf NegInf = Some False"
| "numLess NegInf _ = Some True"
| "numLess _ NegInf = Some False"
| "numLess PosInf _ = Some False"
| "numLess _ PosInf = Some True"
| "numLess (Fin a) (Fin b) = Some (a < b)"

fun numEq :: "jsnum \<Rightarrow> jsnum \<Rightarrow> bool" where
  "numEq NaN _ = False"
| "numEq _ NaN = False"
| "numEq a b = (a = b)"

fun numAdd :: "jsnum \<Rightarrow> jsnum \<Rightarrow> jsnum" where
  "numAdd NaN _ = NaN"
| "numAdd _ NaN = NaN"
| "numAdd PosInf NegInf = NaN"
| "numAdd NegInf PosInf = NaN"
| "numAdd PosInf _ = PosInf"
| "numAdd _ PosInf = PosInf"
| "numAdd NegInf _ = NegInf"
| "numAdd _ NegInf = NegInf"
| "numAdd (Fin a) (Fin b) = Fin (a + b)"

text \<open>\<^verbatim>\<open>x / n\<close> for a positive count \<open>n\<close> (the only division of the engine).\<close>

fun numDivCount :: "jsnum \<Rightarrow> nat \<Rightarrow> jsnum" where
  "numDivCount (Fin a) n = Fin (a / of_nat n)"
| "numDivCount x n = x"

definition numMin :: "jsnum \<Rightarrow> jsnum \<Rightarrow> jsnum" where
  "numMin a b = (if a = NaN \<or> b = NaN then NaN else if numLess b a = Some True then b else a)"

definition numMax :: "jsnum \<Rightarrow> jsnum \<Rightarrow> jsnum" where
  "numMax a b = (if a = NaN \<or> b = NaN then NaN else if numLess a b = Some True then b else a)"

text \<open>\<^verbatim>\<open>Math.min(...xs)\<close> and \<^verbatim>\<open>Math.max(...xs)\<close>.\<close>

definition mathMin :: "jsnum list \<Rightarrow> jsnum" where
  "mathMin xs = foldl numMin PosInf xs"

definition mathMax :: "jsnum list \<Rightarrow> jsnum" where
  "mathMax xs = foldl numMax NegInf xs"

subsection \<open>Coercions\<close>

text \<open>\<^verbatim>\<open>String(v)\<close>.\<close>

fun toStr :: "host \<Rightarrow> jsval \<Rightarrow> string" where
  "toStr h JUndefined = ''undefined''"
| "toStr h JNull = ''null''"
| "toStr h (JBool b) = (if b then ''true'' else ''false'')"
| "toStr h (JNum n) = numberToString h n"
| "toStr h (JStr s) = s"

text \<open>\<^verbatim>\<open>ToNumber(v)\<close>, the coercion the relational and equality operators apply.\<close>

fun toNumber :: "host \<Rightarrow> jsval \<Rightarrow> jsnum" where
  "toNumber h JUndefined = NaN"
| "toNumber h JNull = Fin 0"
| "toNumber h (JBool b) = (if b then Fin 1 else Fin 0)"
| "toNumber h (JNum n) = n"
| "toNumber h (JStr s) = stringToNumber h s"

text \<open>Truthiness, as \<^verbatim>\<open>||\<close> and \<^verbatim>\<open>&&\<close> test it.\<close>

fun truthy :: "jsval \<Rightarrow> bool" where
  "truthy JUndefined = False"
| "truthy JNull = False"
| "truthy (JBool b) = b"
| "truthy (JNum n) = (n \<noteq> NaN \<and> n \<noteq> Fin 0)"
| "truthy (JStr s) = (s \<noteq> [])"

text \<open>Strict equality \<^verbatim>\<open>a === b\<close>.\<close>

fun strictEq :: "jsval \<Rightarrow> jsval \<Rightarrow> bool" where
  "strictEq (JNum a) (JNum b) = numEq a b"
| "strictEq a b = (a = b)"

text \<open>Comparison of two strings by code units, as \<^verbatim>\<open><\<close> does when both operands are strings.\<close>

fun strLess :: "string \<Rightarrow> string \<Rightarrow> bool" where
  "strLess [] [] = False"
| "strLess [] (y # ys) = True"
| "strLess (x # xs) [] = False"
| "strLess (x # xs) (y # ys) =
     ((of_char x :: nat) < of_char y \<or> (x = y \<and> strLess xs ys))"

text \<open>
  The abstract relational comparison behind \<^verbatim>\<open><\<close>, \<^verbatim>\<open>></\<close>, \<^verbatim>\<open><=\<close> and \<^verbatim>\<open>>=\<close>:
  two strings compare as strings, anything else as numbers; \<open>None\<close> is undefined.
\<close>

fun isLessThan :: "host \<Rightarrow> jsval \<Rightarrow> jsval \<Rightarrow> bool option" where
  "isLessThan h (JStr a) (JStr b) = Some (strLess a b)"
| "isLessThan h a b = numLess (toNumber h a) (toNumber h b)"

definition jsLt :: "host \<Rightarrow> jsval \<Rightarrow> jsval \<Rightarrow> bool" where
  "jsLt h a b = (isLessThan h a b = Some True)"

definition jsGt :: "host \<Rightarrow> jsval \<Rightarrow> jsval \<Rightarrow> bool" where
  "jsGt h a b = (isLessThan h b a = Some True)"

definition jsLe :: "host \<Rightarrow> jsval \<Rightarrow> jsval \<Rightarrow> bool" where
  "jsLe h a b = (isLessThan h b a = Some False)"

definition jsGe :: "host \<Rightarrow> jsval \<Rightarrow> jsval \<Rightarrow> bool" where
  "jsGe h a b = (isLessThan h a b = Some False)"

text \<open>Loose equality \<^verbatim>\<open>a == b\<close>.\<close>

fun looseEq :: "host \<Rightarrow> jsval \<Rightarrow> jsval \<Rightarrow> bool" where
  "looseEq h JUndefined b = (b = JUndefined \<or> b = JNull)"
| "looseEq h JNull b = (b = JUndefined \<or> b = JNull)"
| "looseEq h (JNum a) (JNum b) = numEq a b"
| "looseEq h (JNum a) (JStr b) = numEq a (stringToNumber h b)"
| "looseEq h (JNum a) (JBool b) = numEq a (toNumber h (JBool b))"
| "looseEq h (JStr a) (JStr b) = (a = b)"
| "looseEq h (JStr a) (JNum b) = numEq (stringToNumber h a) b"
| "looseEq h (JStr a) (JBool b) = numEq (stringToNumber h a) (toNumber h (JBool b))"
| "looseEq h (JBool a) (JBool b) = (a = b)"
| "looseEq h (JBool a) (JNum b) = numEq (toNumber h (JBool a)) b"
| "looseEq h (JBool a) (JStr b) = numEq (toNumber h (JBool a)) (stringToNumber h b)"
| "looseEq h a b = False"

section \<open>String primitives\<close>

definition isSpace :: "char \<Rightarrow> bool" where
  "isSpace c = (c \<in> set [CHR '' '', CHR 0x09, CHR 0x0A, CHR 0x0B, CHR 0x0C, CHR 0x0D])"

definition digitChars :: string where
  "digitChars = ''0123456789''"

definition upperLetters :: string where
  "upperLetters = ''ABCDEFGHIJKLMNOPQRSTUVWXYZ''"

definition lowerLetters :: string where
  "lowerLetters = ''abcdefghijklmnopqrstuvwxyz''"

definition isDigit :: "char \<Rightarrow> bool" where
  "isDigit c = (c \<in> set digitChars)"

definition isUpper :: "char \<Rightarrow> bool" where
  "isUpper c = (c \<in> set upperLetters)"

definition isLower :: "char \<Rightarrow> bool" where
  "isLower c = (c \<in> set lowerLetters)"

definition isWord :: "char \<Rightarrow> bool" where
  "isWord c = (isDigit c \<or> isUpper c \<or> isLower c \<or> c = CHR ''_'')"

definition lowerChar :: "char \<Rightarrow> char" where
  "lowerChar c = (case map_of (zip upperLetters lowerLetters) c of None \<Rightarrow> c | Some d \<Rightarrow> d)"

definition upperChar :: "char \<Rightarrow> char" where
  "upperChar c = (case map_of (zip lowerLetters upperLetters) c of None \<Rightarrow> c | Some d \<Rightarrow> d)"

definition toLowerCase :: "string \<Rightarrow> string" where
  "toLowerCase s = map lowerChar s"

definition toUpperCase :: "string \<Rightarrow> string" where
  "toUpperCase s = map upperChar s"

definition trim :: "string \<Rightarrow> string" where
  "trim s = rev (dropWhile isSpace (rev (dropWhile isSpace s)))"

definition startsWith :: "string \<Rightarrow> string \<Rightarrow> bool" where
  "startsWith s p = prefix p s"

definition endsWith :: "string \<Rightarrow> string \<Rightarrow> bool" where
  "endsWith s p = suffix p s"

text \<open>\<^verbatim>\<open>s.includes(sub)\<close>: \<open>sub\<close> occurs in \<open>s\<close> as a contiguous substring.\<close>

fun includesStr :: "string \<Rightarrow> string \<Rightarrow> bool" where
  "includesStr [] sub = (sub = [])"
| "includesStr (c # cs) sub = (prefix sub (c # cs) \<or> includesStr cs sub)"

text \<open>
  \<^verbatim>\<open>s.split(sep)\<close> for a non-empty string \<open>sep\<close>: the pieces between the successive
  non-overlapping occurrences of \<open>sep\<close>, found from the left.  \<open>cur\<close> holds the
  characters of the current piece, newest first.
\<close>

function splitFrom :: "string \<Rightarrow> string \<Rightarrow> string \<Rightarrow> string list" where
  "splitFrom sep cur [] = [rev cur]"
| "splitFrom sep cur (c # cs) =
     (if sep \<noteq> [] \<and> prefix sep (c # cs)
      then rev cur # splitFrom sep [] (drop (length sep - 1) cs)
      else splitFrom sep (c # cur) cs)"
  by pat_completeness auto
termination
  by (relation "measure (\<lambda>(sep, cur, s). length s)") auto

definition split :: "string \<Rightarrow> string \<Rightarrow> string list" where
  "split s sep = splitFrom sep [] s"

text \<open>\<^verbatim>\<open>parts.join(sep)\<close>.\<close>

fun join :: "string \<Rightarrow> string list \<Rightarrow> string" where
  "join sep [] = []"
| "join sep [x] = x"
| "join sep (x # y # ys) = x @ sep @ join sep (y # ys)"


section \<open>Regular expressions\<close>

text \<open>
  The engine cuts the query text with regular expressions.  The fragment it uses is
  modelled with the backtracking semantics of JavaScript: a matcher maps a state (the
  current position and the captures made so far) to the list of states in which the
  match can end, in the order in which backtracking tries them.  \<open>Plus\<close> is a greedy
  \<^verbatim>\<open>+\<close> over a character class, \<open>PlusLazy\<close> the lazy \<^verbatim>\<open>+?\<close>, \<open>Ahead\<close> the lookahead
  \<^verbatim>\<open>(?=...)\<close>, \<open>Bos\<close> and \<open>Eos\<close> are \<^verbatim>\<open>^\<close> and \<^verbatim>\<open>$\<close> without the multiline flag.
  The first argument of the matcher is the \<^verbatim>\<open>i\<close> flag.
\<close>

datatype cls = CSpace | CWord | CDigit | CAny

fun inCls :: "cls \<Rightarrow> char \<Rightarrow> bool" where
  "inCls CSpace c = isSpace c"
| "inCls CWord c = isWord c"
| "inCls CDigit c = isDigit c"
| "inCls CAny c = (c \<noteq> CHR 0x0A \<and> c \<noteq> CHR 0x0D)"

datatype regex =
    Lit string
  | Plus cls
  | PlusLazy cls
  | Group nat regex
  | Seq regex regex
  | Alt regex regex
  | Ahead regex
  | Bos
  | Eos

type_synonym mstate = "nat \<times> (nat \<times> nat \<times> nat) list"

text \<open>A character of a pattern against a character of the text.\<close>

definition charMatches :: "bool \<Rightarrow> char \<Rightarrow> char \<Rightarrow> bool" where
  "charMatches ci c d = (if c = d then True else if ci then lowerChar c = lowerChar d else False)"

text \<open>The literal \<open>l\<close> is a prefix of the text \<open>t\<close>.\<close>

fun litPrefix :: "bool \<Rightarrow> string \<Rightarrow> string \<Rightarrow> bool" where
  "litPrefix ci [] t = True"
| "litPrefix ci (c # cs) [] = False"
| "litPrefix ci (c # cs) (d # ds) = (if charMatches ci c d then litPrefix ci cs ds else False)"

definition runLength :: "cls \<Rightarrow> string \<Rightarrow> nat \<Rightarrow> nat" where
  "runLength c s i = length (takeWhile (inCls c) (drop i s))"

fun rmatch :: "bool \<Rightarrow> string \<Rightarrow> regex \<Rightarrow> mstate \<Rightarrow> mstate list" where
  "rmatch ci s (Lit l) (i, caps) =
     (if litPrefix ci l (drop i s) then [(i + length l, caps)] else [])"
| "rmatch ci s (Plus c) (i, caps) =
     map (\<lambda>k. (i + k, caps)) (rev [1 ..< Suc (runLength c s i)])"
| "rmatch ci s (PlusLazy c) (i, caps) =
     map (\<lambda>k. (i + k, caps)) [1 ..< Suc (runLength c s i)]"
| "rmatch ci s (Group g r) (i, caps) =
     map (\<lambda>(j, caps'). (j, (g, i, j) # caps')) (rmatch ci s r (i, caps))"
| "rmatch ci s (Seq r1 r2) st = concat (map (rmatch ci s r2) (rmatch ci s r1 st))"
| "rmatch ci s (Alt r1 r2) st = rmatch ci s r1 st @ rmatch ci s r2 st"
| "rmatch ci s (Ahead r) st = (if rmatch ci s r st = [] then [] else [st])"
| "rmatch ci s Bos (i, caps) = (if i = 0 then [(i, caps)] else [])"
| "rmatch ci s Eos (i, caps) = (if i = length s then [(i, caps)] else [])"

text \<open>
  \<^verbatim>\<open>s.match(re)\<close> for a regular expression without the \<^verbatim>\<open>g\<close> flag: the first start
  position at which the pattern matches, with the first way of matching there.
\<close>

fun firstFrom :: "bool \<Rightarrow> regex \<Rightarrow> string \<Rightarrow> nat list \<Rightarrow> mstate option" where
  "firstFrom ci r s [] = None"
| "firstFrom ci r s (i # is) =
     (case rmatch ci s r (i, []) of [] \<Rightarrow> firstFrom ci r s is | m # _ \<Rightarrow> Some m)"

definition matchRe :: "bool \<Rightarrow> regex \<Rightarrow> string \<Rightarrow> mstate option" where
  "matchRe ci r s = firstFrom ci r s [0 ..< Suc (length s)]"

text \<open>The text of capture group \<open>g\<close> of a match (every group of the engine's patterns takes part in every match).\<close>

definition capture :: "string \<Rightarrow> mstate \<Rightarrow> nat \<Rightarrow> string" where
  "capture s m g =
     (case filter (\<lambda>(g', a, b). g' = g) (snd m) of
        [] \<Rightarrow> []
      | (g', a, b) # _ \<Rightarrow> take (b - a) (drop a s))"

text \<open>
  \<^verbatim>\<open>s.split(re)\<close> for a pattern without capture groups: \<open>p\<close> is where the current piece
  starts, \<open>q\<close> where the next separator is looked for.  A separator match that ends at
  \<open>p\<close> is skipped, as the language requires.
\<close>

function splitReFrom :: "bool \<Rightarrow> regex \<Rightarrow> string \<Rightarrow> nat \<Rightarrow> nat \<Rightarrow> string list" where
  "splitReFrom ci r s p q =
     (if length s \<le> q then [drop p s]
      else (case rmatch ci s r (q, []) of
              [] \<Rightarrow> splitReFrom ci r s p (Suc q)
            | (e, caps) # _ \<Rightarrow>
                if e = p then splitReFrom ci r s p (Suc q)
                else take (q - p) (drop p s) # splitReFrom ci r s e (if e \<le> q then Suc q else e)))"
  by pat_completeness auto
termination
  by (relation "measure (\<lambda>(ci, r, s, p, q). length s - q)") auto

declare splitReFrom.simps [simp del]

definition splitRe :: "bool \<Rightarrow> regex \<Rightarrow> string \<Rightarrow> string list" where
  "splitRe ci r s =
     (if s = [] then (if rmatch ci s r (0, []) = [] then [s] else [])
      else splitReFrom ci r s 0 0)"

section \<open>The predicate evaluator\<close>

text \<open>The operator list of \<^verbatim>\<open>evaluateCondition\<close>, in the order in which the loop tries it.\<close>

definition operators :: "string list" where
  "operators = [''='', ''!='', ''>'', ''<'', ''>='', ''<='', ''like'', ''contains'']"

text \<open>\<^verbatim>\<open>value.replace(/['"]/g, '')\<close>.\<close>

definition stripQuotes :: "string \<Rightarrow> string" where
  "stripQuotes s = filter (\<lambda>c. c \<noteq> CHR 0x27 \<and> c \<noteq> CHR 0x22) s"

text \<open>The \<^verbatim>\<open>switch (operator)\<close> of \<^verbatim>\<open>evaluateCondition\<close>.\<close>

definition applyOperator :: "host \<Rightarrow> string \<Rightarrow> jsval \<Rightarrow> string \<Rightarrow> bool" where
  "applyOperator h operator columnValue v =
     (if operator = ''='' then looseEq h columnValue (JStr v)
      else if operator = ''!='' then \<not> looseEq h columnValue (JStr v)
      else if operator = ''>'' then jsGt h columnValue (JNum (parseFloat h v))
      else if operator = ''<'' then jsLt h columnValue (JNum (parseFloat h v))
      else if operator = ''>='' then jsGe h columnValue (JNum (parseFloat h v))
      else if operator = ''<='' then jsLe h columnValue (JNum (parseFloat h v))
      else if operator = ''like'' \<or> operator = ''contains''
        then includesStr (toLowerCase (toStr h columnValue)) (stripQuotes (toLowerCase v))
      else False)"

text \<open>
  The \<^verbatim>\<open>for (const operator of operators)\<close> loop: the first operator that occurs in
  the condition and splits it into exactly two parts decides.
\<close>

fun evalOperators :: "host \<Rightarrow> row \<Rightarrow> string \<Rightarrow> string list \<Rightarrow> bool" where
  "evalOperators h r condition [] = True"
| "evalOperators h r condition (operator # rest) =
     (if includesStr condition operator
      then (let parts = map trim (split condition operator)
            in if length parts = 2
               then (let column = parts ! 0; v = parts ! 1; columnValue = getProp r column
                     in if columnValue = JUndefined then False
                        else applyOperator h operator columnValue v)
               else evalOperators h r condition rest)
      else evalOperators h r condition rest)"

definition evaluateCondition :: "host \<Rightarrow> row \<Rightarrow> string \<Rightarrow> bool" where
  "evaluateCondition h r condition = evalOperators h r condition operators"

text \<open>The separator \<^verbatim>\<open>/\s+and\s+|\s+or\s+/i\<close> of \<^verbatim>\<open>applyWhereClause\<close>.\<close>

definition andOrRe :: regex where
  "andOrRe = Alt (Seq (Plus CSpace) (Seq (Lit ''and'') (Plus CSpace)))
                 (Seq (Plus CSpace) (Seq (Lit ''or'') (Plus CSpace)))"

definition applyWhereClause :: "host \<Rightarrow> row list \<Rightarrow> string \<Rightarrow> row list" where
  "applyWhereClause h data whereClause =
     (let conditions = splitRe True andOrRe whereClause
      in filter (\<lambda>r. list_all (\<lambda>condition. evaluateCondition h r (trim condition)) conditions) data)"


section \<open>The aggregator\<close>

text \<open>
  The exceptions the engine throws, by their messages: \<^verbatim>\<open>Unsupported query type\<close>,
  \<^verbatim>\<open>Invalid SELECT syntax\<close>, \<^verbatim>\<open>Table '...' not found or empty\<close>,
  \<^verbatim>\<open>Table '...' not found\<close>, \<^verbatim>\<open>Invalid aggregation syntax: ...\<close> and
  \<^verbatim>\<open>Unsupported aggregation function: ...\<close>; \<open>TypeError\<close> is what reading a property
  of \<^verbatim>\<open>undefined\<close> raises.
\<close>

datatype error =
    UnsupportedQueryType
  | InvalidSelectSyntax
  | TableNotFoundOrEmpty string
  | TableNotFound string
  | InvalidAggregationSyntax string
  | UnsupportedAggregation string
  | TypeError

definition aggregationFunctions :: "string list" where
  "aggregationFunctions = [''COUNT'', ''SUM'', ''AVG'', ''MIN'', ''MAX'']"

definition isAggregationColumn :: "string \<Rightarrow> bool" where
  "isAggregationColumn column =
     (list_ex (\<lambda>func. startsWith (toUpperCase column) (func @ ''('') \<and> endsWith column '')'')
        aggregationFunctions
      \<or> column = ''COUNT(*)'')"

text \<open>The pattern \<^verbatim>\<open>/^(\w+)\((.+)\)$/\<close> of \<^verbatim>\<open>parseAggregationColumn\<close>.\<close>

definition aggregationRe :: regex where
  "aggregationRe =
     Seq Bos (Seq (Group 1 (Plus CWord)) (Seq (Lit ''('') (Seq (Group 2 (Plus CAny)) (Seq (Lit '')'') Eos))))"

definition parseAggregationColumn :: "string \<Rightarrow> error + (string \<times> string)" where
  "parseAggregationColumn column =
     (if column = ''COUNT(*)'' then Inr (''COUNT'', ''*'')
      else (case matchRe False aggregationRe column of
              None \<Rightarrow> Inl (InvalidAggregationSyntax column)
            | Some m \<Rightarrow> Inr (toUpperCase (capture column m 1), trim (capture column m 2))))"

text \<open>\<^verbatim>\<open>parseFloat(val) || 0\<close>.\<close>

definition parseFloatOr0 :: "host \<Rightarrow> jsval \<Rightarrow> jsnum" where
  "parseFloatOr0 h val =
     (let n = parseFloat h (toStr h val) in if truthy (JNum n) then n else Fin 0)"

definition calculateAggregation :: "host \<Rightarrow> row list \<Rightarrow> string \<Rightarrow> string \<Rightarrow> error + jsval" where
  "calculateAggregation h groupRows functionName columnName =
     (let vals = filter (\<lambda>val. val \<noteq> JNull \<and> val \<noteq> JUndefined)
                   (map (\<lambda>r. getProp r columnName) groupRows)
      in if length vals = 0 then Inr JNull
         else if functionName = ''COUNT'' then
           (if columnName = ''*'' then Inr (JNum (Fin (of_nat (length groupRows))))
            else Inr (JNum (Fin (of_nat (length vals)))))
         else if functionName = ''SUM'' then
           Inr (JNum (foldl (\<lambda>sum val. numAdd sum (parseFloatOr0 h val)) (Fin 0) vals))
         else if functionName = ''AVG'' then
           Inr (JNum (numDivCount (foldl (\<lambda>sum val. numAdd sum (parseFloatOr0 h val)) (Fin 0) vals)
                        (length vals)))
         else if functionName = ''MIN'' then Inr (JNum (mathMin (map (parseFloatOr0 h) vals)))
         else if functionName = ''MAX'' then Inr (JNum (mathMax (map (parseFloatOr0 h) vals)))
         else Inl (UnsupportedAggregation functionName))"

text \<open>
  The group key of a row: \<^verbatim>\<open>groupColumns.map(col => String(row[col] || 'NULL')).join('|')\<close>.
\<close>

definition groupKey :: "host \<Rightarrow> string list \<Rightarrow> row \<Rightarrow> string" where
  "groupKey h groupColumns r =
     join ''|'' (map (\<lambda>col. toStr h (let v = getProp r col in if truthy v then v else JStr ''NULL''))
                   groupColumns)"

text \<open>
  The \<^verbatim>\<open>Map\<close> of groups, in insertion order.  One step of the \<^verbatim>\<open>data.forEach\<close> loop
  creates the group of the row's key when the map does not have it, and pushes the row.
\<close>

type_synonym groups = "(string \<times> row list) list"

definition addToGroup :: "host \<Rightarrow> string list \<Rightarrow> groups \<Rightarrow> row \<Rightarrow> groups" where
  "addToGroup h groupColumns groups r =
     (let key = groupKey h groupColumns r;
          groups' = (if map_of groups key = None then AList.update key [] groups else groups)
      in AList.map_entry key (\<lambda>rs. rs @ [r]) groups')"

definition buildGroups :: "host \<Rightarrow> string list \<Rightarrow> row list \<Rightarrow> groups" where
  "buildGroups h groupColumns data = foldl (addToGroup h groupColumns) [] data"

text \<open>The first loop over a group: the group columns, read back from the key.\<close>

definition groupValueAt :: "string list \<Rightarrow> nat \<Rightarrow> jsval" where
  "groupValueAt groupValues index =
     (if index < length groupValues
      then (if groupValues ! index = ''NULL'' then JNull else JStr (groupValues ! index))
      else JUndefined)"

definition initGroupedRow :: "string list \<Rightarrow> string \<Rightarrow> row" where
  "initGroupedRow groupColumns key =
     (let groupValues = split key ''|''
      in foldl (\<lambda>groupedRow (col, index). setProp groupedRow col (groupValueAt groupValues index))
           [] (zip groupColumns [0 ..< length groupColumns]))"

text \<open>\<^verbatim>\<open>groupRows[0][trimmedCol]\<close>.\<close>

definition firstRowValue :: "row list \<Rightarrow> string \<Rightarrow> error + jsval" where
  "firstRowValue groupRows col = (case groupRows of [] \<Rightarrow> Inl TypeError | r # _ \<Rightarrow> Inr (getProp r col))"

text \<open>One step of the second loop over a group: one select column.\<close>

definition processColumn ::
  "host \<Rightarrow> string list \<Rightarrow> row list \<Rightarrow> row \<Rightarrow> string \<Rightarrow> error + row" where
  "processColumn h groupColumns groupRows groupedRow col =
     (let trimmedCol = trim col
      in if trimmedCol = ''COUNT(*)''
         then Inr (setProp groupedRow ''COUNT(*)'' (JNum (Fin (of_nat (length groupRows)))))
         else if isAggregationColumn trimmedCol
         then (case parseAggregationColumn trimmedCol of
                 Inl e \<Rightarrow> Inl e
               | Inr (functionName, columnName) \<Rightarrow>
                   (case calculateAggregation h groupRows functionName columnName of
                      Inl e \<Rightarrow> Inl e
                    | Inr v \<Rightarrow> Inr (setProp groupedRow trimmedCol v)))
         else if trimmedCol \<in> set groupColumns
         then (case firstRowValue groupRows trimmedCol of
                 Inl e \<Rightarrow> Inl e | Inr v \<Rightarrow> Inr (setProp groupedRow trimmedCol v))
         else (case firstRowValue groupRows trimmedCol of
                 Inl e \<Rightarrow> Inl e | Inr v \<Rightarrow> Inr (setProp groupedRow trimmedCol v)))"

fun processColumns ::
  "host \<Rightarrow> string list \<Rightarrow> row list \<Rightarrow> row \<Rightarrow> string list \<Rightarrow> error + row" where
  "processColumns h groupColumns groupRows groupedRow [] = Inr groupedRow"
| "processColumns h groupColumns groupRows groupedRow (col # cols) =
     (case processColumn h groupColumns groupRows groupedRow col of
        Inl e \<Rightarrow> Inl e
      | Inr groupedRow' \<Rightarrow> processColumns h groupColumns groupRows groupedRow' cols)"

text \<open>The \<^verbatim>\<open>groups.forEach\<close> loop: one output row per group, in the order of the map.\<close>

fun processGroups :: "host \<Rightarrow> string list \<Rightarrow> string list \<Rightarrow> groups \<Rightarrow> error + row list" where
  "processGroups h columns groupColumns [] = Inr []"
| "processGroups h columns groupColumns ((key, groupRows) # rest) =
     (case processColumns h groupColumns groupRows (initGroupedRow groupColumns key) columns of
        Inl e \<Rightarrow> Inl e
      | Inr groupedRow \<Rightarrow>
          (case processGroups h columns groupColumns rest of
             Inl e \<Rightarrow> Inl e
           | Inr result \<Rightarrow> Inr (groupedRow # result)))"

definition applyGroupBy :: "host \<Rightarrow> row list \<Rightarrow> string list \<Rightarrow> string \<Rightarrow> error + row list" where
  "applyGroupBy h data columns groupByClause =
     (let groupColumns = map trim (split groupByClause '','')
      in processGroups h columns groupColumns (buildGroups h groupColumns data))"


section \<open>The orderer\<close>

text \<open>The separator \<^verbatim>\<open>/\s+/\<close> that cuts an ORDER BY term into column and direction.\<close>

definition whitespaceRe :: regex where
  "whitespaceRe = Plus CSpace"

text \<open>
  The comparator of \<^verbatim>\<open>applyOrderBy\<close>: the loop over the ORDER BY terms.  A term whose
  values are strictly equal is skipped; the first other term decides, by
  \<^verbatim>\<open>localeCompare\<close> when the left value is a string and by \<^verbatim>\<open><\<close> otherwise, negated
  for \<^verbatim>\<open>desc\<close>.
\<close>

fun compareRows :: "host \<Rightarrow> string list \<Rightarrow> row \<Rightarrow> row \<Rightarrow> int" where
  "compareRows h [] a b = 0"
| "compareRows h (orderPart # rest) a b =
     (let parts = splitRe False whitespaceRe orderPart;
          column = (case parts of [] \<Rightarrow> ''undefined'' | c # _ \<Rightarrow> c);
          direction = (case parts of c # d # _ \<Rightarrow> Some d | _ \<Rightarrow> None);
          aVal = getProp a column;
          bVal = getProp b column
      in if strictEq aVal bVal then compareRows h rest a b
         else (let comparison =
                     (case aVal of
                        JStr sa \<Rightarrow> localeCompare h sa (toStr h bVal)
                      | _ \<Rightarrow> if jsLt h aVal bVal then - 1 else 1)
               in if (case direction of None \<Rightarrow> False
                      | Some d \<Rightarrow> d \<noteq> [] \<and> toLowerCase d = ''desc'')
                  then - comparison else comparison))"

text \<open>
  \<^verbatim>\<open>Array.prototype.sort(compare)\<close> belongs to the language: it is a stable sort, its
  result is fixed by the comparator when the comparator is consistent, and is left to
  the implementation otherwise.  It is modelled by insertion from the right, which
  computes that result for every consistent comparator; the theorems about sorting
  assume consistency.
\<close>

fun insertBy :: "('a \<Rightarrow> 'a \<Rightarrow> int) \<Rightarrow> 'a \<Rightarrow> 'a list \<Rightarrow> 'a list" where
  "insertBy cmp x [] = [x]"
| "insertBy cmp x (y # ys) = (if cmp x y \<le> 0 then x # y # ys else y # insertBy cmp x ys)"

definition sortBy :: "('a \<Rightarrow> 'a \<Rightarrow> int) \<Rightarrow> 'a list \<Rightarrow> 'a list" where
  "sortBy cmp xs = foldr (insertBy cmp) xs []"

text \<open>
  \<^verbatim>\<open>applyOrderBy\<close> computes the new contents of the array it is given; the array is
  sorted in place, which the store of the next section records.
\<close>

definition applyOrderBy :: "host \<Rightarrow> row list \<Rightarrow> string \<Rightarrow> row list" where
  "applyOrderBy h data orderClause =
     (let orderParts = map trim (split orderClause '','')
      in sortBy (compareRows h orderParts) data)"

section \<open>The query engine\<close>

text \<open>
  The engine holds arrays by reference: the cache maps a table name to the array the
  loader returned, \<^verbatim>\<open>[...tableData]\<close>, \<^verbatim>\<open>filter\<close>, \<^verbatim>\<open>slice\<close> and \<^verbatim>\<open>map\<close> allocate a new
  array, and \<^verbatim>\<open>sort\<close> overwrites the array it is called on.  The state is a store of
  arrays with an allocation counter, and the \<^verbatim>\<open>dataCache\<close> map in insertion order.
  Rows are values: no statement of the engine assigns to a property of an existing row
  (\<^verbatim>\<open>selectedRow\<close> and \<^verbatim>\<open>groupedRow\<close> are new objects).
\<close>

record engine =
  arrays :: "nat \<Rightarrow> row list"
  nextRef :: nat
  dataCache :: "(string \<times> nat) list"

definition newArray :: "engine \<Rightarrow> row list \<Rightarrow> engine \<times> nat" where
  "newArray s xs = (s\<lparr>arrays := (arrays s)(nextRef s := xs), nextRef := Suc (nextRef s)\<rparr>, nextRef s)"

text \<open>
  The table provider (\<^verbatim>\<open>loadTableData\<close> of \<^verbatim>\<open>csvLoader.ts\<close>, which fetches and parses
  a file and falls back to sample data) is a parameter: a function from the table name
  to the rows of the array it returns.  The method \<^verbatim>\<open>loadTableData\<close> of the engine
  looks in the cache first.
\<close>

definition loadTableData :: "(string \<Rightarrow> row list) \<Rightarrow> engine \<Rightarrow> string \<Rightarrow> engine \<times> nat" where
  "loadTableData provider s tableName =
     (case map_of (dataCache s) tableName of
        Some a \<Rightarrow> (s, a)
      | None \<Rightarrow>
          (let (s1, a) = newArray s (provider tableName)
           in (s1\<lparr>dataCache := AList.update tableName a (dataCache s1)\<rparr>, a)))"

text \<open>The keys of \<^verbatim>\<open>CSV_ENDPOINTS\<close> in \<^verbatim>\<open>csvLoader.ts\<close>.\<close>

definition getAvailableTables :: "string list" where
  "getAvailableTables =
     [''customers'', ''employees'', ''orders'', ''order_details'', ''products'', ''categories'',
      ''suppliers'', ''territories'', ''regions'', ''shippers'', ''employee_territories'']"

text \<open>
  The patterns of \<^verbatim>\<open>handleSelectQuery\<close>, all with the \<^verbatim>\<open>i\<close> flag:
  \<^verbatim>\<open>/select\s+(.+?)\s+from\s+(\w+)/\<close>,
  \<^verbatim>\<open>/where\s+(.+?)(?=\s+(?:group\s+by|order\s+by|limit|$))/\<close>,
  \<^verbatim>\<open>/group\s+by\s+(.+?)(?=\s+(?:order\s+by|limit|$))/\<close>,
  \<^verbatim>\<open>/order\s+by\s+(.+?)(?=\s+limit|$)/\<close> and \<^verbatim>\<open>/limit\s+(\d+)/\<close>.
\<close>

definition selectRe :: regex where
  "selectRe =
     Seq (Lit ''select'') (Seq (Plus CSpace) (Seq (Group 1 (PlusLazy CAny))
       (Seq (Plus CSpace) (Seq (Lit ''from'') (Seq (Plus CSpace) (Group 2 (Plus CWord)))))))"

definition groupByWords :: regex where
  "groupByWords = Seq (Lit ''group'') (Seq (Plus CSpace) (Lit ''by''))"

definition orderByWords :: regex where
  "orderByWords = Seq (Lit ''order'') (Seq (Plus CSpace) (Lit ''by''))"

definition whereRe :: regex where
  "whereRe =
     Seq (Lit ''where'') (Seq (Plus CSpace) (Seq (Group 1 (PlusLazy CAny))
       (Ahead (Seq (Plus CSpace) (Alt groupByWords (Alt orderByWords (Alt (Lit ''limit'') Eos)))))))"

definition groupByRe :: regex where
  "groupByRe =
     Seq groupByWords (Seq (Plus CSpace) (Seq (Group 1 (PlusLazy CAny))
       (Ahead (Seq (Plus CSpace) (Alt orderByWords (Alt (Lit ''limit'') Eos))))))"

definition orderByRe :: regex where
  "orderByRe =
     Seq orderByWords (Seq (Plus CSpace) (Seq (Group 1 (PlusLazy CAny))
       (Ahead (Alt (Seq (Plus CSpace) (Lit ''limit'')) Eos))))"

definition limitRe :: regex where
  "limitRe = Seq (Lit ''limit'') (Seq (Plus CSpace) (Group 1 (Plus CDigit)))"

text \<open>\<^verbatim>\<open>parseInt\<close> of a string of decimal digits.\<close>

definition digitsToNat :: "string \<Rightarrow> nat" where
  "digitsToNat ds = foldl (\<lambda>n c. 10 * n + ((of_char c :: nat) - 48)) 0 ds"

text \<open>
  The stages of \<^verbatim>\<open>handleSelectQuery\<close> after the table is loaded.  Each takes the
  state and the reference held by the variable \<^verbatim>\<open>result\<close> and returns the new ones.
\<close>

definition whereStage :: "host \<Rightarrow> string \<Rightarrow> engine \<times> nat \<Rightarrow> engine \<times> nat" where
  "whereStage h query st =
     (case matchRe True whereRe query of
        None \<Rightarrow> st
      | Some m \<Rightarrow> newArray (fst st) (applyWhereClause h (arrays (fst st) (snd st)) (capture query m 1)))"

definition groupStage ::
  "host \<Rightarrow> string \<Rightarrow> string list \<Rightarrow> engine \<times> nat \<Rightarrow> error + engine \<times> nat" where
  "groupStage h query columns st =
     (case matchRe True groupByRe query of
        None \<Rightarrow> Inr st
      | Some m \<Rightarrow>
          (case applyGroupBy h (arrays (fst st) (snd st)) columns (capture query m 1) of
             Inl e \<Rightarrow> Inl e
           | Inr rows \<Rightarrow> Inr (newArray (fst st) rows)))"

definition orderStage :: "host \<Rightarrow> string \<Rightarrow> engine \<times> nat \<Rightarrow> engine \<times> nat" where
  "orderStage h query st =
     (case matchRe True orderByRe query of
        None \<Rightarrow> st
      | Some m \<Rightarrow>
          ((fst st)\<lparr>arrays := (arrays (fst st))
                      (snd st := applyOrderBy h (arrays (fst st) (snd st)) (capture query m 1))\<rparr>,
           snd st))"

definition limitStage :: "string \<Rightarrow> engine \<times> nat \<Rightarrow> engine \<times> nat" where
  "limitStage query st =
     (case matchRe True limitRe query of
        None \<Rightarrow> st
      | Some m \<Rightarrow>
          (let limit = digitsToNat (capture query m 1)
           in newArray (fst st) (take limit (arrays (fst st) (snd st)))))"

text \<open>The projection of one row on the select list.\<close>

definition selectColumns :: "string list \<Rightarrow> row \<Rightarrow> row" where
  "selectColumns columns r =
     foldl (\<lambda>selectedRow col. if hasOwnProperty r col then setProp selectedRow col (getProp r col)
                               else selectedRow) [] columns"

definition projectStage :: "string \<Rightarrow> string list \<Rightarrow> engine \<times> nat \<Rightarrow> engine \<times> nat" where
  "projectStage query columns st =
     (if matchRe True groupByRe query = None
         \<and> (case columns of [] \<Rightarrow> True | c # _ \<Rightarrow> c \<noteq> ''*'')
      then newArray (fst st) (map (selectColumns columns) (arrays (fst st) (snd st)))
      else st)"

text \<open>
  \<^verbatim>\<open>handleSelectQuery\<close>.  The result is the final state and either the error thrown or
  the reference of the array returned.
\<close>

definition handleSelectQuery ::
  "(string \<Rightarrow> row list) \<Rightarrow> host \<Rightarrow> engine \<Rightarrow> string \<Rightarrow> engine \<times> (error + nat)" where
  "handleSelectQuery provider h s query =
     (case matchRe True selectRe query of
        None \<Rightarrow> (s, Inl InvalidSelectSyntax)
      | Some m \<Rightarrow>
          (let columns = map trim (split (capture query m 1) '','');
               tableName = trim (capture query m 2);
               (s1, tableData) = loadTableData provider s tableName
           in if length (arrays s1 tableData) = 0 then (s1, Inl (TableNotFoundOrEmpty tableName))
              else (let filtered = whereStage h query (newArray s1 (arrays s1 tableData))
                    in (case groupStage h query columns filtered of
                          Inl e \<Rightarrow> (fst filtered, Inl e)
                        | Inr st \<Rightarrow>
                            (let (s', result) = projectStage query columns
                                                  (limitStage query (orderStage h query st))
                             in (s', Inr result))))))"

definition isTableQuery :: "string \<Rightarrow> bool" where
  "isTableQuery query =
     list_ex (\<lambda>table. toLowerCase (trim query) = toLowerCase table) getAvailableTables"

definition getTableData :: "(string \<Rightarrow> row list) \<Rightarrow> engine \<Rightarrow> string \<Rightarrow> engine \<times> (error + nat)" where
  "getTableData provider s query =
     (let tableName = toLowerCase (trim query)
      in (case find (\<lambda>key. toLowerCase key = tableName) getAvailableTables of
            None \<Rightarrow> (s, Inl (TableNotFound tableName))
          | Some actualTableName \<Rightarrow>
              (let (s1, a) = loadTableData provider s actualTableName in (s1, Inr a))))"

definition executeQuery ::
  "(string \<Rightarrow> row list) \<Rightarrow> host \<Rightarrow> engine \<Rightarrow> string \<Rightarrow> engine \<times> (error + nat)" where
  "executeQuery provider h s query =
     (let normalizedQuery = toLowerCase (trim query)
      in if startsWith normalizedQuery ''select'' then handleSelectQuery provider h s query
         else if isTableQuery query then getTableData provider s query
         else (s, Inl UnsupportedQueryType))"

text \<open>The rows a call returns, read from the final state.\<close>

definition resultRows :: "engine \<times> (error + nat) \<Rightarrow> error + row list" where
  "resultRows out = (case snd out of Inl e \<Rightarrow> Inl e | Inr a \<Rightarrow> Inr (arrays (fst out) a))"

text \<open>The engine as constructed: nothing cached.\<close>

definition newEngine :: engine where
  "newEngine = \<lparr>arrays = (\<lambda>a. []), nextRef = 0, dataCache = []\<rparr>"

section \<open>A reference host for the examples\<close>

text \<open>
  The concrete examples below need a host.  \<open>refHost\<close> reads and prints plain decimal
  literals (an optional sign, digits, an optional fraction; no exponent) and compares
  strings by code units.
\<close>

definition decimalPrefix :: "string \<Rightarrow> (rat \<times> string) option" where
  "decimalPrefix s =
     (let (neg, s1) = (case s of [] \<Rightarrow> (False, s)
                       | c # t \<Rightarrow> if c = CHR ''-'' then (True, t)
                                  else if c = CHR ''+'' then (False, t) else (False, s));
          ip = takeWhile isDigit s1;
          r1 = dropWhile isDigit s1;
          (fp, r2) = (case r1 of [] \<Rightarrow> ([], r1)
                      | c # t \<Rightarrow> if c = CHR ''.'' then (takeWhile isDigit t, dropWhile isDigit t)
                                 else ([], r1));
          q = of_nat (digitsToNat ip) + of_nat (digitsToNat fp) / 10 ^ length fp
      in if ip = [] \<and> fp = [] then None else Some (if neg then - q else q, r2))"

definition refParseFloat :: "string \<Rightarrow> jsnum" where
  "refParseFloat s =
     (case decimalPrefix (dropWhile isSpace s) of None \<Rightarrow> NaN | Some (q, _) \<Rightarrow> Fin q)"

definition refStringToNumber :: "string \<Rightarrow> jsnum" where
  "refStringToNumber s =
     (let t = trim s
      in if t = [] then Fin 0
         else (case decimalPrefix t of
                 None \<Rightarrow> NaN
               | Some (q, rest) \<Rightarrow> if rest = [] then Fin q else NaN))"

fun natDigits :: "nat \<Rightarrow> nat \<Rightarrow> string" where
  "natDigits 0 n = []"
| "natDigits (Suc fuel) n =
     (if n < 10 then [char_of (48 + n)]
      else natDigits fuel (n div 10) @ [char_of (48 + n mod 10)])"

fun fracDigits :: "nat \<Rightarrow> rat \<Rightarrow> string" where
  "fracDigits 0 f = []"
| "fracDigits (Suc fuel) f =
     (if f = 0 then []
      else (let d = nat \<lfloor>f * 10\<rfloor> in char_of (48 + d) # fracDigits fuel (f * 10 - of_nat d)))"

definition refNumberToString :: "jsnum \<Rightarrow> string" where
  "refNumberToString n =
     (case n of
        NaN \<Rightarrow> ''NaN''
      | PosInf \<Rightarrow> ''Infinity''
      | NegInf \<Rightarrow> ''-Infinity''
      | Fin q \<Rightarrow>
          (let a = \<bar>q\<bar>; ip = nat \<lfloor>a\<rfloor>; f = a - of_nat ip
           in (if q < 0 then ''-'' else [])
              @ natDigits (Suc ip) ip
              @ (if f = 0 then [] else ''.'' @ fracDigits 17 f)))"

definition refLocaleCompare :: "string \<Rightarrow> string \<Rightarrow> int" where
  "refLocaleCompare a b = (if strLess a b then - 1 else if strLess b a then 1 else 0)"

definition refHost :: host where
  "refHost = \<lparr> parseFloat = refParseFloat, stringToNumber = refStringToNumber,
               numberToString = refNumberToString, localeCompare = refLocaleCompare \<rparr>"


section \<open>Auxiliary notions for the statements\<close>

text \<open>The distinct elements of a list, in the order of their first occurrences.\<close>

definition firstOccurrences :: "'a list \<Rightarrow> 'a list" where
  "firstOccurrences xs = rev (remdups (rev xs))"

text \<open>
  The partition of a list by a key: one entry per distinct key, in the order in which
  the keys first occur, holding the elements with that key in their original order.
\<close>

definition groupsOf :: "('r \<Rightarrow> 'k) \<Rightarrow> 'r list \<Rightarrow> ('k \<times> 'r list) list" where
  "groupsOf key data = map (\<lambda>k. (k, filter (\<lambda>r. key r = k) data)) (firstOccurrences (map key data))"

section \<open>Example data\<close>

text \<open>
  The two sample products of \<^verbatim>\<open>getSampleData\<close> in \<^verbatim>\<open>csvLoader.ts\<close>, and a provider
  that knows only this table.
\<close>

definition sampleProducts :: "row list" where
  "sampleProducts =
     [[(''productID'', JNum (Fin 1)), (''productName'', JStr ''Chai''), (''supplierID'', JNum (Fin 1)),
       (''categoryID'', JNum (Fin 1)), (''quantityPerUnit'', JStr ''10 boxes x 20 bags''),
       (''unitPrice'', JNum (Fin 18)), (''unitsInStock'', JNum (Fin 39)),
       (''unitsOnOrder'', JNum (Fin 0)), (''reorderLevel'', JNum (Fin 10)),
       (''discontinued'', JBool False)],
      [(''productID'', JNum (Fin 2)), (''productName'', JStr ''Chang''), (''supplierID'', JNum (Fin 1)),
       (''categoryID'', JNum (Fin 1)), (''quantityPerUnit'', JStr ''24 - 12 oz bottles''),
       (''unitPrice'', JNum (Fin 19)), (''unitsInStock'', JNum (Fin 17)),
       (''unitsOnOrder'', JNum (Fin 40)), (''reorderLevel'', JNum (Fin 25)),
       (''discontinued'', JBool False)]]"

definition sampleProvider :: "string \<Rightarrow> row list" where
  "sampleProvider tableName = (if tableName = ''products'' then sampleProducts else [])"

text \<open>A table of five rows with two numeric columns.\<close>

definition fiveRows :: "row list" where
  "fiveRows =
     [[(''id'', JNum (Fin 1)), (''a'', JNum (Fin 2)), (''b'', JNum (Fin 10))],
      [(''id'', JNum (Fin 2)), (''a'', JNum (Fin 1)), (''b'', JNum (Fin 30))],
      [(''id'', JNum (Fin 3)), (''a'', JNum (Fin 2)), (''b'', JNum (Fin 20))],
      [(''id'', JNum (Fin 4)), (''a'', JNum (Fin 1)), (''b'', JNum (Fin 30))],
      [(''id'', JNum (Fin 5)), (''a'', JNum (Fin 2)), (''b'', JNum (Fin 10))]]"

definition fiveRowsProvider :: "string \<Rightarrow> row list" where
  "fiveRowsProvider tableName = (if tableName = ''orders'' then fiveRows else [])"


section \<open>Invariants of the store\<close>




section \<open>The ordering the specification describes\<close>


definition numberAt :: "row \<Rightarrow> string \<Rightarrow> rat" where
  "numberAt r c = (case getProp r c of JNum (Fin q) \<Rightarrow> q | _ \<Rightarrow> 0)"

fun specCompare :: "(string \<times> bool) list \<Rightarrow> row \<Rightarrow> row \<Rightarrow> int" where
  "specCompare [] a b = 0"
| "specCompare ((c, desc) # keys) a b =
     (if numberAt a c = numberAt b c then specCompare keys a b
      else if (numberAt a c < numberAt b c) \<noteq> desc then - 1 else 1)"



section \<open>Clause boundaries\<close>

text \<open>
  The patterns for WHERE and GROUP BY end in a lookahead that wants white space followed
  by one of the later keywords or by the end of the text.  \<open>hasBoundary\<close> says that the
  query has such a place: a position after a white-space character where one of the
  keywords starts or the text ends.
\<close>

definition boundaryAt :: "string list \<Rightarrow> string \<Rightarrow> nat \<Rightarrow> bool" where
  "boundaryAt keywords query p =
     (list_ex (\<lambda>w. litPrefix True w (drop p query)) keywords \<or> p = length query)"

definition hasBoundary :: "string list \<Rightarrow> string \<Rightarrow> bool" where
  "hasBoundary keywords query =
     list_ex (\<lambda>p. isSpace (query ! (p - 1)) \<and> boundaryAt keywords query p) [1 ..< Suc (length query)]"

section \<open>Properties of the predicate evaluator\<close>

text \<open>
  C1.  The claim: a condition token written with \<^verbatim>\<open>>=\<close> resolves to the operator
  \<^verbatim>\<open>>=\<close>, so that \<^verbatim>\<open>col >= v\<close> keeps exactly the rows whose \<^verbatim>\<open>col\<close> is at least \<^verbatim>\<open>v\<close>.
  The loop of \<^verbatim>\<open>evaluateCondition\<close> tries \<^verbatim>\<open>=\<close> first: the token \<^verbatim>\<open>col >= 5\<close>
  contains \<^verbatim>\<open>=\<close> once, is split there into the column name \<^verbatim>\<open>col >\<close> and the literal
  \<^verbatim>\<open>5\<close>, and the row with \<^verbatim>\<open>col = 10\<close> is rejected because it has no column of that
  name, although \<^verbatim>\<open>10 >= 5\<close> holds and the \<^verbatim>\<open>>=\<close> branch of the switch would keep it.
\<close>

theorem C1_ge_token_is_split_at_eq:
  "map trim (split ''col >= 5'' ''='') = [''col >'', ''5'']
   \<and> evaluateCondition refHost [(''col'', JNum (Fin 10))] ''col >= 5'' = False
   \<and> applyOperator refHost ''>='' (getProp [(''col'', JNum (Fin 10))] ''col'') ''5'' = True"
  by code_simp

subsection \<open>The conditions of a WHERE clause\<close>

text \<open>
  Two conditions without white space, joined by \<^verbatim>\<open>and\<close> or by \<^verbatim>\<open>or\<close>, are cut into the
  same two tokens: the separator pattern has one alternative for each word, and the
  word that matched is not kept.
\<close>

lemma rmatch_andOr_nonspace:
  assumes "q < length s" and "\<not> isSpace (s ! q)"
  shows "rmatch True s andOrRe (q, []) = []"
proof -
  have "drop q s = s ! q # drop (Suc q) s"
    using assms(1) by (simp add: Cons_nth_drop_Suc)
  then have "runLength CSpace s q = 0"
    using assms(2) by (simp add: runLength_def)
  then show ?thesis by (simp add: andOrRe_def)
qed

lemma splitReFrom_skip:
  assumes "\<And>i. q \<le> i \<Longrightarrow> i < n \<Longrightarrow> \<not> isSpace (s ! i)" and "n \<le> length s" and "q \<le> n"
  shows "splitReFrom True andOrRe s p q = splitReFrom True andOrRe s p n"
  using assms
proof (induction "n - q" arbitrary: q)
  case 0
  then show ?case by simp
next
  case (Suc d)
  then have q: "q < n" "q < length s" by auto
  then have "rmatch True s andOrRe (q, []) = []"
    using Suc.prems(1)[of q] by (intro rmatch_andOr_nonspace) auto
  then have "splitReFrom True andOrRe s p q = splitReFrom True andOrRe s p (Suc q)"
    using q by (subst splitReFrom.simps) simp
  also have "\<dots> = splitReFrom True andOrRe s p n"
    using Suc q by (intro Suc.hyps(1)) auto
  finally show ?case .
qed

lemma splitRe_two_conditions:
  assumes a: "\<not> list_ex isSpace a" and b: "\<not> list_ex isSpace b"
    and sep: "sep \<noteq> []"
    and m: "rmatch True (a @ sep @ b) andOrRe (length a, []) = (length a + length sep, caps) # rest"
  shows "splitRe True andOrRe (a @ sep @ b) = [a, b]"
proof -
  let ?s = "a @ sep @ b"
  let ?e = "length a + length sep"
  have ne: "?s \<noteq> []" using sep by simp
  have skip_a: "splitReFrom True andOrRe ?s 0 0 = splitReFrom True andOrRe ?s 0 (length a)"
    using a by (intro splitReFrom_skip) (auto simp: list_ex_iff nth_append)
  have at_sep: "splitReFrom True andOrRe ?s 0 (length a) = a # splitReFrom True andOrRe ?s ?e ?e"
    using sep m by (subst splitReFrom.simps) (simp add: length_greater_0_conv)
  have skip_b: "splitReFrom True andOrRe ?s ?e ?e = splitReFrom True andOrRe ?s ?e (length ?s)"
    using b by (intro splitReFrom_skip) (auto simp: list_ex_iff nth_append)
  have fin: "splitReFrom True andOrRe ?s ?e (length ?s) = [b]"
    by (subst splitReFrom.simps) simp
  have "splitRe True andOrRe ?s = splitReFrom True andOrRe ?s 0 0"
    using sep by (simp add: splitRe_def)
  also have "\<dots> = a # splitReFrom True andOrRe ?s ?e ?e"
    by (simp only: skip_a at_sep)
  also have "\<dots> = [a, b]"
    by (simp only: skip_b fin)
  finally show ?thesis .
qed

lemma takeWhile_isSpace_nospace: "\<not> list_ex isSpace b \<Longrightarrow> takeWhile isSpace b = []"
  by (cases b) (auto simp: list_ex_iff)

lemma inCls_CSpace: "inCls CSpace = isSpace"
  by (rule ext) simp

lemma rmatch_or:
  assumes "\<not> list_ex isSpace b"
  shows "rmatch True (a @ '' or '' @ b) andOrRe (length a, []) = [(length a + length '' or '', [])]"
  using takeWhile_isSpace_nospace[OF assms]
  by (simp add: andOrRe_def runLength_def inCls_CSpace charMatches_def lowerChar_def
      upperLetters_def lowerLetters_def) (simp add: isSpace_def)

lemma rmatch_and:
  assumes "\<not> list_ex isSpace b"
  shows "rmatch True (a @ '' and '' @ b) andOrRe (length a, []) = [(length a + length '' and '', [])]"
  using takeWhile_isSpace_nospace[OF assms]
  by (simp add: andOrRe_def runLength_def inCls_CSpace charMatches_def lowerChar_def
      upperLetters_def lowerLetters_def) (simp add: isSpace_def)


lemma trim_nospace: "\<not> list_ex isSpace a \<Longrightarrow> trim a = a"
proof -
  assume "\<not> list_ex isSpace a"
  then have "dropWhile isSpace a = a" and "dropWhile isSpace (rev a) = rev a"
    by (cases a rule: rev_cases; auto simp: list_ex_iff dropWhile_append3; cases a; auto)+
  then show ?thesis by (simp add: trim_def)
qed

text \<open>
  C5.  \<^verbatim>\<open>applyWhereClause\<close> keeps exactly the rows on which every condition token holds,
  in their order: the tokens are what the separator pattern leaves of the clause, and
  nothing records whether a separator was \<^verbatim>\<open>and\<close> or \<^verbatim>\<open>or\<close>.  For two conditions
  without white space the clause with \<^verbatim>\<open>or\<close> keeps the rows on which both hold, as the
  clause with \<^verbatim>\<open>and\<close> does.
\<close>

theorem C5_where_conditions_are_and_joined:
  "applyWhereClause h data whereClause
     = filter (\<lambda>r. \<forall>condition\<in>set (splitRe True andOrRe whereClause).
                      evaluateCondition h r (trim condition)) data
   \<and> (\<not> list_ex isSpace a \<and> \<not> list_ex isSpace b \<longrightarrow>
        applyWhereClause h data (a @ '' or '' @ b)
          = filter (\<lambda>r. evaluateCondition h r a \<and> evaluateCondition h r b) data
      \<and> applyWhereClause h data (a @ '' and '' @ b)
          = filter (\<lambda>r. evaluateCondition h r a \<and> evaluateCondition h r b) data)"
proof -
  have general: "applyWhereClause h data w
     = filter (\<lambda>r. \<forall>condition\<in>set (splitRe True andOrRe w). evaluateCondition h r (trim condition)) data"
    for w
    by (simp add: applyWhereClause_def Let_def list_all_iff)
  have two: "applyWhereClause h data (a @ sep @ b)
          = filter (\<lambda>r. evaluateCondition h r a \<and> evaluateCondition h r b) data"
    if "\<not> list_ex isSpace a" "\<not> list_ex isSpace b"
      "splitRe True andOrRe (a @ sep @ b) = [a, b]" for sep
    using that by (simp add: general trim_nospace)
  have "splitRe True andOrRe (a @ '' or '' @ b) = [a, b]"
    if "\<not> list_ex isSpace a" "\<not> list_ex isSpace b"
    using that by (intro splitRe_two_conditions[OF _ _ _ rmatch_or]) auto
  moreover have "splitRe True andOrRe (a @ '' and '' @ b) = [a, b]"
    if "\<not> list_ex isSpace a" "\<not> list_ex isSpace b"
    using that by (intro splitRe_two_conditions[OF _ _ _ rmatch_and]) auto
  ultimately show ?thesis
    using general[of whereClause] two by blast
qed

text \<open>
  On the five rows, \<^verbatim>\<open>a>1 or b>15\<close> keeps row 3 only, the one row on which both
  conditions hold; one of the two holds on every row.
\<close>

theorem C5_where_conditions_are_and_joined_witness:
  "\<not> list_ex isSpace ''a>1'' \<and> \<not> list_ex isSpace ''b>15''
   \<and> applyWhereClause refHost fiveRows ''a>1 or b>15''
       = [[(''id'', JNum (Fin 3)), (''a'', JNum (Fin 2)), (''b'', JNum (Fin 20))]]
   \<and> applyWhereClause refHost fiveRows ''a>1 and b>15''
       = [[(''id'', JNum (Fin 3)), (''a'', JNum (Fin 2)), (''b'', JNum (Fin 20))]]
   \<and> filter (\<lambda>r. evaluateCondition refHost r ''a>1'' \<or> evaluateCondition refHost r ''b>15'') fiveRows
       = fiveRows
   \<and> applyWhereClause refHost fiveRows ''a > 1 OR b > 15''
       = [[(''id'', JNum (Fin 3)), (''a'', JNum (Fin 2)), (''b'', JNum (Fin 20))]]"
proof -
  have ns: "\<not> list_ex isSpace ''a>1''" "\<not> list_ex isSpace ''b>15''"
    by code_simp+
  have both: "filter (\<lambda>r. evaluateCondition refHost r ''a>1'' \<and> evaluateCondition refHost r ''b>15'') fiveRows
       = [[(''id'', JNum (Fin 3)), (''a'', JNum (Fin 2)), (''b'', JNum (Fin 20))]]"
    by code_simp
  have either: "filter (\<lambda>r. evaluateCondition refHost r ''a>1'' \<or> evaluateCondition refHost r ''b>15'') fiveRows
       = fiveRows"
    by code_simp
  have spaced: "applyWhereClause refHost fiveRows ''a > 1 OR b > 15''
       = [[(''id'', JNum (Fin 3)), (''a'', JNum (Fin 2)), (''b'', JNum (Fin 20))]]"
    by code_simp
  from C5_where_conditions_are_and_joined[of refHost fiveRows "[]" "''a>1''" "''b>15''"] ns
  have "applyWhereClause refHost fiveRows (''a>1'' @ '' or '' @ ''b>15'')
          = filter (\<lambda>r. evaluateCondition refHost r ''a>1'' \<and> evaluateCondition refHost r ''b>15'') fiveRows"
    and "applyWhereClause refHost fiveRows (''a>1'' @ '' and '' @ ''b>15'')
          = filter (\<lambda>r. evaluateCondition refHost r ''a>1'' \<and> evaluateCondition refHost r ''b>15'') fiveRows"
    by blast+
  then have "applyWhereClause refHost fiveRows ''a>1 or b>15''
       = [[(''id'', JNum (Fin 3)), (''a'', JNum (Fin 2)), (''b'', JNum (Fin 20))]]"
    and "applyWhereClause refHost fiveRows ''a>1 and b>15''
       = [[(''id'', JNum (Fin 3)), (''a'', JNum (Fin 2)), (''b'', JNum (Fin 20))]]"
    by (simp_all add: both)
  with ns either spaced show ?thesis by (intro conjI)
qed

section \<open>Properties of the aggregator\<close>

text \<open>
  When every row of a group holds \<^verbatim>\<open>null\<close> or nothing in the aggregated column,
  \<^verbatim>\<open>calculateAggregation\<close> returns \<^verbatim>\<open>null\<close> before it looks at the function name.
\<close>

lemma calculateAggregation_all_null:
  assumes "\<And>r. r \<in> set groupRows \<Longrightarrow> getProp r columnName = JNull \<or> getProp r columnName = JUndefined"
  shows "calculateAggregation h groupRows functionName columnName = Inr JNull"
proof -
  have "filter (\<lambda>val. val \<noteq> JNull \<and> val \<noteq> JUndefined)
          (map (\<lambda>r. getProp r columnName) groupRows) = []"
    using assms by (auto simp: filter_empty_conv)
  then show ?thesis by (simp add: calculateAggregation_def)
qed

text \<open>
  C3.  The claim: over a group whose values of the aggregated column are all
  \<^verbatim>\<open>null\<close> or missing, SUM, AVG, MIN and MAX yield \<^verbatim>\<open>null\<close> and COUNT(column) yields 0.
  On the group of two rows, one with \<^verbatim>\<open>a = null\<close> and one without \<^verbatim>\<open>a\<close>, the four
  numeric aggregates are \<^verbatim>\<open>null\<close>, and so is COUNT(a): the early return for an empty
  value list comes before the \<^verbatim>\<open>COUNT\<close> case.
\<close>

theorem C3_count_of_all_null_column_is_null:
  "calculateAggregation refHost [[(''a'', JNull)], [(''b'', JNum (Fin 1))]] ''COUNT'' ''a'' = Inr JNull
   \<and> map (\<lambda>f. calculateAggregation refHost [[(''a'', JNull)], [(''b'', JNum (Fin 1))]] f ''a'')
        [''SUM'', ''AVG'', ''MIN'', ''MAX''] = [Inr JNull, Inr JNull, Inr JNull, Inr JNull]"
  by code_simp

subsection \<open>Grouping\<close>

text \<open>
  \<^verbatim>\<open>buildGroups\<close>, the first loop of \<^verbatim>\<open>applyGroupBy\<close>, partitions the rows by their
  group key, keeping the order of first occurrence of the keys and the order of the rows.
\<close>

lemma firstOccurrences_snoc:
  "firstOccurrences (xs @ [x]) = (if x \<in> set xs then firstOccurrences xs else firstOccurrences xs @ [x])"
  by (simp add: firstOccurrences_def)

lemma set_firstOccurrences [simp]: "set (firstOccurrences xs) = set xs"
  by (simp add: firstOccurrences_def)

lemma distinct_firstOccurrences [simp]: "distinct (firstOccurrences xs)"
  by (simp add: firstOccurrences_def)


lemma map_of_tabulate:
  "map_of (map (\<lambda>k. (k, F k)) ks) k = (if k \<in> set ks then Some (F k) else None)"
  by (induction ks) auto

lemma update_tabulate_fresh:
  "k \<notin> set ks \<Longrightarrow> AList.update k v (map (\<lambda>k. (k, F k)) ks) = map (\<lambda>k. (k, F k)) ks @ [(k, v)]"
  by (induction ks) auto

lemma map_entry_tabulate:
  "distinct ks \<Longrightarrow>
   AList.map_entry k f (map (\<lambda>k'. (k', F k')) ks) = map (\<lambda>k'. (k', if k' = k then f (F k') else F k')) ks"
  by (induction ks) auto

lemma map_entry_snoc_fresh:
  "k \<notin> fst ` set ps \<Longrightarrow> AList.map_entry k f (ps @ [(k, v)]) = ps @ [(k, f v)]"
  by (induction ps) auto

lemma buildGroups_snoc:
  "buildGroups h cols (data @ [r]) = addToGroup h cols (buildGroups h cols data) r"
  by (simp add: buildGroups_def)

lemma buildGroups_eq: "buildGroups h cols data = groupsOf (groupKey h cols) data"
proof (induction data rule: rev_induct)
  case Nil
  show ?case by (simp add: buildGroups_def groupsOf_def firstOccurrences_def)
next
  case (snoc r data)
  let ?key = "groupKey h cols"
  let ?ks = "firstOccurrences (map ?key data)"
  have G: "buildGroups h cols data = map (\<lambda>k. (k, filter (\<lambda>r. ?key r = k) data)) ?ks"
    using snoc.IH by (simp add: groupsOf_def)
  show ?case
  proof (cases "?key r \<in> set (map ?key data)")
    case True
    then have "map_of (buildGroups h cols data) (?key r) \<noteq> None"
      by (simp add: G map_of_tabulate)
    then have "buildGroups h cols (data @ [r])
        = AList.map_entry (?key r) (\<lambda>rs. rs @ [r]) (buildGroups h cols data)"
      by (auto simp: buildGroups_snoc addToGroup_def Let_def)
    also have "\<dots> = map (\<lambda>k. (k, if k = ?key r then filter (\<lambda>r. ?key r = k) data @ [r]
                                      else filter (\<lambda>r. ?key r = k) data)) ?ks"
      by (simp add: G map_entry_tabulate)
    also have "\<dots> = map (\<lambda>k. (k, filter (\<lambda>r. ?key r = k) (data @ [r]))) ?ks"
      by (rule map_cong) auto
    finally show ?thesis
      using True by (simp add: groupsOf_def firstOccurrences_snoc)
  next
    case False
    then have fresh: "?key r \<notin> set ?ks" by simp
    have none: "map_of (buildGroups h cols data) (?key r) = None"
      using fresh by (simp add: G map_of_tabulate)
    have "buildGroups h cols (data @ [r])
        = AList.map_entry (?key r) (\<lambda>rs. rs @ [r])
            (AList.update (?key r) [] (buildGroups h cols data))"
      using none by (simp add: buildGroups_snoc addToGroup_def Let_def)
    also have "\<dots> = map (\<lambda>k. (k, filter (\<lambda>r. ?key r = k) data)) ?ks @ [(?key r, [r])]"
      using fresh by (simp add: G update_tabulate_fresh map_entry_snoc_fresh image_image)
    also have "\<dots> = map (\<lambda>k. (k, filter (\<lambda>r. ?key r = k) (data @ [r]))) (?ks @ [?key r])"
      using False by (auto simp: filter_empty_conv) (metis imageI)
    finally show ?thesis
      using False by (simp add: groupsOf_def firstOccurrences_snoc)
  qed
qed


lemma groupsOf_member:
  assumes "(k, rs) \<in> set (groupsOf key data)"
  shows "rs = filter (\<lambda>r. key r = k) data" and "k \<in> key ` set data" and "rs \<noteq> []" and "set rs \<subseteq> set data"
proof -
  from assms show rs: "rs = filter (\<lambda>r. key r = k) data" and k: "k \<in> key ` set data"
    by (auto simp: groupsOf_def)
  from k obtain r where "r \<in> set data" "key r = k" by auto
  then show "rs \<noteq> []" by (auto simp: rs filter_empty_conv)
  show "set rs \<subseteq> set data" by (auto simp: rs)
qed






subsection \<open>The select columns of a group\<close>

lemma getProp_setProp: "getProp (setProp r k v) k' = (if k' = k then v else getProp r k')"
  by (simp add: getProp_def setProp_def update_conv')

lemma processColumn_writes_trimmed:
  assumes "processColumn h groupColumns groupRows groupedRow col = Inr groupedRow'"
  shows "\<exists>v. groupedRow' = setProp groupedRow (trim col) v"
  using assms
  by (auto simp: processColumn_def Let_def split: if_splits sum.splits prod.splits)

lemma processColumn_other_key:
  assumes "processColumn h groupColumns groupRows groupedRow col = Inr groupedRow'"
    and "trim col \<noteq> k"
  shows "getProp groupedRow' k = getProp groupedRow k"
  using processColumn_writes_trimmed[OF assms(1)] assms(2) by (auto simp: getProp_setProp)

lemma isAggregationColumn_count_lower: "isAggregationColumn ''count(*)''"
  by code_simp

lemma parseAggregationColumn_count_lower: "parseAggregationColumn ''count(*)'' = Inr (''COUNT'', ''*'')"
  by code_simp

lemma processColumn_count_lower:
  assumes "trim col = ''count(*)''"
    and "\<And>r. r \<in> set groupRows \<Longrightarrow> getProp r ''*'' = JNull \<or> getProp r ''*'' = JUndefined"
  shows "processColumn h groupColumns groupRows groupedRow col = Inr (setProp groupedRow ''count(*)'' JNull)"
proof -
  have "calculateAggregation h groupRows ''COUNT'' ''*'' = Inr JNull"
    using assms(2) by (rule calculateAggregation_all_null)
  then show ?thesis
    by (simp add: processColumn_def Let_def assms(1) isAggregationColumn_count_lower
        parseAggregationColumn_count_lower)
qed

lemma processColumn_count_upper:
  assumes "trim col = ''COUNT(*)''"
  shows "processColumn h groupColumns groupRows groupedRow col
         = Inr (setProp groupedRow ''COUNT(*)'' (JNum (Fin (of_nat (length groupRows)))))"
  by (simp add: processColumn_def Let_def assms)

lemma processColumns_key:
  assumes "processColumns h groupColumns groupRows groupedRow cols = Inr groupedRow'"
    and "\<And>col g. col \<in> set cols \<Longrightarrow> trim col = k \<Longrightarrow>
            processColumn h groupColumns groupRows g col = Inr (setProp g k v)"
    and "k \<in> trim ` set cols \<or> getProp groupedRow k = v"
  shows "getProp groupedRow' k = v"
  using assms
proof (induction cols arbitrary: groupedRow)
  case Nil
  then show ?case by simp
next
  case (Cons col cols)
  from Cons.prems(1) obtain g where
    step: "processColumn h groupColumns groupRows groupedRow col = Inr g"
    and rest: "processColumns h groupColumns groupRows g cols = Inr groupedRow'"
    by (auto split: sum.splits)
  have "getProp g k = v \<or> k \<in> trim ` set cols"
  proof (cases "trim col = k")
    case True
    then have "g = setProp groupedRow k v" using Cons.prems(2)[of col groupedRow] step by simp
    then show ?thesis by (simp add: getProp_setProp)
  next
    case False
    then have "getProp g k = getProp groupedRow k" using step by (rule processColumn_other_key[rotated])
    then show ?thesis using Cons.prems(3) False by auto
  qed
  then show ?case
    using Cons.IH[OF rest] Cons.prems(2) by auto
qed

lemma processGroups_member:
  assumes "processGroups h columns groupColumns gs = Inr result" and "groupedRow \<in> set result"
  shows "\<exists>key groupRows. (key, groupRows) \<in> set gs
           \<and> processColumns h groupColumns groupRows (initGroupedRow groupColumns key) columns = Inr groupedRow"
  using assms
proof (induction gs arbitrary: result)
  case Nil
  then show ?case by simp
next
  case (Cons g gs)
  obtain key groupRows where g: "g = (key, groupRows)" by (cases g)
  from Cons.prems(1) obtain r rs where
    r: "processColumns h groupColumns groupRows (initGroupedRow groupColumns key) columns = Inr r"
    and rs: "processGroups h columns groupColumns gs = Inr rs"
    and res: "result = r # rs"
    by (auto simp: g split: sum.splits)
  show ?case
  proof (cases "groupedRow = r")
    case True
    then show ?thesis using r g by auto
  next
    case False
    then have "groupedRow \<in> set rs" using Cons.prems(2) res by simp
    from Cons.IH[OF rs this] show ?thesis by auto
  qed
qed

text \<open>
  C10.  In a GROUP BY query the count of all rows is recognised only when it is spelled
  \<^verbatim>\<open>COUNT(*)\<close>.  A select column spelled \<^verbatim>\<open>count(*)\<close> misses the special case, is
  parsed as the aggregate \<^verbatim>\<open>COUNT\<close> over a column named \<^verbatim>\<open>*\<close>, and, no row holding a
  value under that name, is \<^verbatim>\<open>null\<close> in every output row; the upper-case spelling
  gives the size of the row's group, which is not empty.
\<close>

theorem C10_lower_case_count_star_is_null:
  assumes "applyGroupBy h data columns groupByClause = Inr result"
    and "groupedRow \<in> set result"
    and "\<forall>r\<in>set data. getProp r ''*'' = JNull \<or> getProp r ''*'' = JUndefined"
  shows "(''count(*)'' \<in> trim ` set columns \<longrightarrow> getProp groupedRow ''count(*)'' = JNull)
       \<and> (''COUNT(*)'' \<in> trim ` set columns \<longrightarrow>
            (\<exists>groupRows. groupRows \<noteq> [] \<and> set groupRows \<subseteq> set data
               \<and> getProp groupedRow ''COUNT(*)'' = JNum (Fin (of_nat (length groupRows)))))"
proof -
  let ?gcs = "map trim (split groupByClause '','')"
  from assms(1) have "processGroups h columns ?gcs (buildGroups h ?gcs data) = Inr result"
    by (simp add: applyGroupBy_def Let_def)
  from processGroups_member[OF this assms(2)] obtain key groupRows where
    g: "(key, groupRows) \<in> set (buildGroups h ?gcs data)"
    and p: "processColumns h ?gcs groupRows (initGroupedRow ?gcs key) columns = Inr groupedRow"
    by blast
  from g have ne: "groupRows \<noteq> []" and sub: "set groupRows \<subseteq> set data"
    by (auto simp: buildGroups_eq dest: groupsOf_member)
  have nulls: "getProp r ''*'' = JNull \<or> getProp r ''*'' = JUndefined" if "r \<in> set groupRows" for r
    using that sub assms(3) by auto
  have lower: "getProp groupedRow ''count(*)'' = JNull" if "''count(*)'' \<in> trim ` set columns"
    by (rule processColumns_key[OF p]) (use that nulls in \<open>auto intro: processColumn_count_lower\<close>)
  have upper: "getProp groupedRow ''COUNT(*)'' = JNum (Fin (of_nat (length groupRows)))"
    if "''COUNT(*)'' \<in> trim ` set columns"
    by (rule processColumns_key[OF p]) (use that in \<open>auto intro: processColumn_count_upper\<close>)
  show ?thesis using lower upper ne sub by blast
qed


theorem C10_lower_case_count_star_is_null_witness:
  "applyGroupBy refHost sampleProducts [''categoryID'', ''count(*)'', ''COUNT(*)''] ''categoryID''
     = Inr [[(''categoryID'', JNum (Fin 1)), (''count(*)'', JNull), (''COUNT(*)'', JNum (Fin 2))]]
   \<and> getProp [(''categoryID'', JNum (Fin 1)), (''count(*)'', JNull), (''COUNT(*)'', JNum (Fin 2))]
        ''count(*)'' = JNull
   \<and> (\<exists>groupRows. groupRows \<noteq> [] \<and> set groupRows \<subseteq> set sampleProducts
         \<and> getProp [(''categoryID'', JNum (Fin 1)), (''count(*)'', JNull), (''COUNT(*)'', JNum (Fin 2))]
               ''COUNT(*)'' = JNum (Fin (of_nat (length groupRows))))"
proof -
  let ?R = "[(''categoryID'', JNum (Fin 1)), (''count(*)'', JNull), (''COUNT(*)'', JNum (Fin 2))]"
  have run: "applyGroupBy refHost sampleProducts [''categoryID'', ''count(*)'', ''COUNT(*)''] ''categoryID''
               = Inr [?R]"
    by code_simp
  have nulls: "\<forall>r\<in>set sampleProducts. getProp r ''*'' = JNull \<or> getProp r ''*'' = JUndefined"
    by (simp add: sampleProducts_def getProp_def)
  have "?R \<in> set [?R]" by simp
  note both = C10_lower_case_count_star_is_null[OF run this nulls]
  have "trim ''count(*)'' = ''count(*)''" by code_simp
  then have lower: "''count(*)'' \<in> trim ` set [''categoryID'', ''count(*)'', ''COUNT(*)'']"
    by force
  have "trim ''COUNT(*)'' = ''COUNT(*)''" by code_simp
  then have upper: "''COUNT(*)'' \<in> trim ` set [''categoryID'', ''count(*)'', ''COUNT(*)'']"
    by force
  from both lower have c1: "getProp ?R ''count(*)'' = JNull" by blast
  from both upper have c2: "\<exists>groupRows. groupRows \<noteq> [] \<and> set groupRows \<subseteq> set sampleProducts
         \<and> getProp ?R ''COUNT(*)'' = JNum (Fin (of_nat (length groupRows)))" by blast
  from run c1 c2 show ?thesis by (intro conjI)
qed

subsection \<open>Counting the rows of each group\<close>

















section \<open>Properties of the orderer\<close>












lemma specCompare_range: "specCompare keys a b \<in> {- 1, 0, 1}"
  by (induction keys a b rule: specCompare.induct) auto


lemma specCompare_zero_iff:
  "specCompare keys a b = 0 \<longleftrightarrow> (\<forall>(c, desc)\<in>set keys. numberAt a c = numberAt b c)"
  by (induction keys a b rule: specCompare.induct) auto











section \<open>Properties of the query engine\<close>

subsection \<open>The cache is not modified\<close>





lemma newArray_props:
  assumes "newArray s xs = (s', a)"
  shows "a = nextRef s" and "nextRef s' = Suc (nextRef s)" and "dataCache s' = dataCache s"
    and "arrays s' a = xs" and "\<And>b. b \<noteq> nextRef s \<Longrightarrow> arrays s' b = arrays s b"
  using assms by (auto simp: newArray_def)















subsection \<open>LIMIT\<close>

text \<open>
  C8.  The LIMIT stage takes the first \<open>n\<close> rows of the rows that reach it and has no
  outcome but an array: when \<open>n\<close> is at least the number of those rows, the array it
  returns holds all of them.
\<close>

theorem C8_limit_beyond_the_row_count_keeps_all_rows:
  assumes "matchRe True limitRe query = Some m"
    and "limitStage query (s, result) = (s', result')"
  shows "arrays s' result' = take (digitsToNat (capture query m 1)) (arrays s result)
       \<and> (length (arrays s result) \<le> digitsToNat (capture query m 1) \<longrightarrow>
            arrays s' result' = arrays s result)"
  using assms by (auto simp: limitStage_def newArray_def Let_def)

theorem C8_limit_beyond_the_row_count_keeps_all_rows_witness:
  "matchRe True limitRe ''SELECT * FROM orders LIMIT 1000'' = Some (31, [(1, 27, 31)])
   \<and> digitsToNat (capture ''SELECT * FROM orders LIMIT 1000'' (31, [(1, 27, 31)]) 1) = 1000
   \<and> length fiveRows = 5
   \<and> arrays (fst (limitStage ''SELECT * FROM orders LIMIT 1000'' (fst (newArray newEngine fiveRows), 0)))
        (snd (limitStage ''SELECT * FROM orders LIMIT 1000'' (fst (newArray newEngine fiveRows), 0)))
       = fiveRows
   \<and> resultRows (executeQuery fiveRowsProvider refHost newEngine ''SELECT * FROM orders LIMIT 1000'')
       = Inr fiveRows"
proof -
  let ?q = "''SELECT * FROM orders LIMIT 1000''"
  let ?s = "fst (newArray newEngine fiveRows)"
  let ?out = "limitStage ?q (?s, 0)"
  have m: "matchRe True limitRe ?q = Some (31, [(1, 27, 31)])"
    by code_simp
  have n: "digitsToNat (capture ?q (31, [(1, 27, 31)]) 1) = 1000"
    by code_simp
  have len: "length fiveRows = 5"
    by (simp add: fiveRows_def)
  have rows: "arrays ?s 0 = fiveRows"
    by (simp add: newArray_def newEngine_def)
  have "?out = (fst ?out, snd ?out)" by simp
  from C8_limit_beyond_the_row_count_keeps_all_rows[OF m this]
  have "arrays (fst ?out) (snd ?out) = fiveRows"
    using n len rows by simp
  moreover have "resultRows (executeQuery fiveRowsProvider refHost newEngine ?q) = Inr fiveRows"
    by code_simp
  ultimately show ?thesis using m n len by (intro conjI)
qed

subsection \<open>Unknown aggregate functions\<close>

text \<open>
  C2.  The claim: a GROUP BY query whose select list holds \<^verbatim>\<open>FOO(unitPrice)\<close> fails
  with the error for an unsupported aggregation.  The query of the specification,
  run on the sample products, returns rows.  Its GROUP BY clause ends the text and
  is not matched by the pattern, which wants white space after the clause, so the
  rows are only projected, on a column they do not have.  With a LIMIT clause
  behind it the clause is matched, and \<^verbatim>\<open>applyGroupBy\<close> treats \<^verbatim>\<open>FOO(unitPrice)\<close> as a
  plain column, because \<^verbatim>\<open>isAggregationColumn\<close> admits the five known functions only:
  the \<^verbatim>\<open>default\<close> branch of \<^verbatim>\<open>calculateAggregation\<close> that throws is never reached.
\<close>

theorem C2_unknown_aggregate_returns_rows:
  "resultRows (executeQuery sampleProvider refHost newEngine
      ''SELECT FOO(unitPrice) FROM products GROUP BY categoryID'') = Inr [[], []]
   \<and> resultRows (executeQuery sampleProvider refHost newEngine
      ''SELECT FOO(unitPrice) FROM products GROUP BY categoryID LIMIT 9'')
       = Inr [[(''categoryID'', JStr ''1''), (''FOO(unitPrice)'', JUndefined)]]
   \<and> isAggregationColumn ''FOO(unitPrice)'' = False
   \<and> calculateAggregation refHost sampleProducts ''FOO'' ''unitPrice'' = Inl (UnsupportedAggregation ''FOO'')"
  by code_simp

section \<open>Further properties\<close>

subsection \<open>The errors of the aggregator\<close>

lemma firstFrom_Some:
  "firstFrom ci r s is = Some m \<Longrightarrow> \<exists>i\<in>set is. \<exists>ms. rmatch ci s r (i, []) = m # ms"
  by (induction "is") (auto split: list.splits)

lemma matchRe_Some:
  assumes "matchRe ci r s = Some m"
  shows "\<exists>i. m \<in> set (rmatch ci s r (i, []))"
proof -
  from firstFrom_Some[OF assms[unfolded matchRe_def]]
  obtain i ms where "rmatch ci s r (i, []) = m # ms" by blast
  then have "m \<in> set (rmatch ci s r (i, []))" by simp
  then show ?thesis ..
qed

lemma aggregationRe_states:
  assumes "m \<in> set (rmatch False c aggregationRe (i, []))"
  shows "\<exists>k. 1 \<le> k \<and> k \<le> runLength CWord c 0 \<and> litPrefix False ''('' (drop k c)
            \<and> capture c m 1 = take k c"
  using assms
  by (auto simp: aggregationRe_def capture_def split: if_splits)


lemma upperChar_paren: "upperChar x = CHR ''('' \<Longrightarrow> x = CHR ''(''"
  by (auto simp: upperChar_def lowerLetters_def upperLetters_def split: if_splits)

lemma upperChar_cases: "upperChar x = x \<or> isLower x"
  by (simp add: upperChar_def isLower_def lowerLetters_def upperLetters_def)

lemma isUpper_upperChar: "isUpper (upperChar x) \<Longrightarrow> isWord x"
  using upperChar_cases[of x] by (auto simp: isWord_def)

lemma not_isWord_paren: "\<not> isWord (CHR ''('')"
  by code_simp

lemma litPrefix_paren: "litPrefix False ''('' t \<Longrightarrow> \<exists>u. t = CHR ''('' # u"
  by (cases t) (auto simp: charMatches_def split: if_splits)

lemma aggregation_function_name:
  assumes pre: "prefix (func @ ''('') (toUpperCase c)"
    and up: "\<forall>x\<in>set func. isUpper x"
    and m: "m \<in> set (rmatch False c aggregationRe (i, []))"
  shows "toUpperCase (capture c m 1) = func"
proof -
  let ?n = "length func"
  from pre obtain r where u: "toUpperCase c = func @ ''('' @ r"
    by (auto simp: prefix_def)
  have "length (toUpperCase c) = length c" by (simp add: toUpperCase_def)
  with u have len: "?n < length c" by simp
  have nth: "upperChar (c ! k) = (func @ ''('' @ r) ! k" if "k < length c" for k
  proof -
    have "toUpperCase c ! k = upperChar (c ! k)" using that by (simp add: toUpperCase_def)
    then show ?thesis by (simp only: u)
  qed
  have word: "isWord (c ! k)" if "k < ?n" for k
  proof -
    have "upperChar (c ! k) = func ! k" using nth[of k] that len by (simp add: nth_append)
    moreover have "isUpper (func ! k)" using up that by simp
    ultimately show ?thesis by (simp add: isUpper_upperChar)
  qed
  have paren: "c ! ?n = CHR ''(''"
    using nth[of ?n] len by (simp add: nth_append upperChar_paren)
  have "takeWhile isWord c = take ?n c"
    by (rule takeWhile_eq_take_P_nth) (use word paren not_isWord_paren in auto)
  then have run: "runLength CWord c 0 = ?n"
    using len by (simp add: runLength_def inCls.simps[abs_def] cong: takeWhile_cong)
  from aggregationRe_states[OF m] obtain k where k: "1 \<le> k" "k \<le> runLength CWord c 0"
    "litPrefix False ''('' (drop k c)" "capture c m 1 = take k c"
    by blast
  have "k = ?n"
  proof (rule ccontr)
    assume "k \<noteq> ?n"
    with k(2) run have lt: "k < ?n" by simp
    from litPrefix_paren[OF k(3)] obtain t where "drop k c = CHR ''('' # t" by blast
    moreover have "drop k c = c ! k # drop (Suc k) c"
      using lt len by (simp add: Cons_nth_drop_Suc)
    ultimately have "c ! k = CHR ''(''" by simp
    with word[OF lt] not_isWord_paren show False by simp
  qed
  then have "toUpperCase (capture c m 1) = take ?n (toUpperCase c)"
    using k(4) by (simp add: toUpperCase_def take_map)
  then show ?thesis by (simp add: u)
qed


lemma aggregationFunctions_upper: "func \<in> set aggregationFunctions \<Longrightarrow> \<forall>x\<in>set func. isUpper x"
  by (auto simp: aggregationFunctions_def isUpper_def upperLetters_def)

lemma parseAggregationColumn_known:
  assumes "isAggregationColumn column" and "parseAggregationColumn column = Inr (functionName, columnName)"
  shows "functionName \<in> set aggregationFunctions"
proof (cases "column = ''COUNT(*)''")
  case True
  with assms(2) show ?thesis by (simp add: parseAggregationColumn_def aggregationFunctions_def)
next
  case False
  with assms(1) obtain func where func: "func \<in> set aggregationFunctions"
    and pre: "prefix (func @ ''('') (toUpperCase column)"
    by (auto simp: isAggregationColumn_def list_ex_iff startsWith_def)
  from assms(2) False obtain m where m: "matchRe False aggregationRe column = Some m"
    and fn: "functionName = toUpperCase (capture column m 1)"
    by (auto simp: parseAggregationColumn_def split: option.splits)
  from matchRe_Some[OF m] obtain i where "m \<in> set (rmatch False column aggregationRe (i, []))" ..
  from aggregation_function_name[OF pre aggregationFunctions_upper[OF func] this]
  show ?thesis using fn func by simp
qed

lemma calculateAggregation_known:
  assumes "functionName \<in> set aggregationFunctions"
  shows "\<exists>v. calculateAggregation h groupRows functionName columnName = Inr v"
  using assms by (auto simp: calculateAggregation_def aggregationFunctions_def Let_def)

lemma processColumn_errors:
  assumes "processColumn h groupColumns groupRows groupedRow col = Inl e" and "groupRows \<noteq> []"
  shows "e = InvalidAggregationSyntax (trim col)"
proof -
  obtain r rs where rows: "groupRows = r # rs" using assms(2) by (cases groupRows) auto
  show ?thesis
  proof (cases "trim col \<noteq> ''COUNT(*)'' \<and> isAggregationColumn (trim col)")
    case False
    with assms(1) show ?thesis
      by (auto simp: processColumn_def Let_def firstRowValue_def rows split: if_splits)
  next
    case True
    show ?thesis
    proof (cases "parseAggregationColumn (trim col)")
      case (Inl e')
      then have "e' = InvalidAggregationSyntax (trim col)"
        by (auto simp: parseAggregationColumn_def split: if_splits option.splits)
      with assms(1) True Inl show ?thesis by (simp add: processColumn_def Let_def)
    next
      case (Inr p)
      obtain fn cn where p: "p = (fn, cn)" by (cases p)
      from parseAggregationColumn_known[OF _ Inr[unfolded p]] True
      have "fn \<in> set aggregationFunctions" by simp
      from calculateAggregation_known[OF this] obtain v where
        "calculateAggregation h groupRows fn cn = Inr v" by blast
      with assms(1) True Inr p show ?thesis by (simp add: processColumn_def Let_def)
    qed
  qed
qed

lemma processColumns_errors:
  assumes "processColumns h groupColumns groupRows groupedRow cols = Inl e" and "groupRows \<noteq> []"
  shows "\<exists>col\<in>set cols. e = InvalidAggregationSyntax (trim col)"
  using assms
proof (induction cols arbitrary: groupedRow)
  case Nil
  then show ?case by simp
next
  case (Cons col cols)
  show ?case
  proof (cases "processColumn h groupColumns groupRows groupedRow col")
    case (Inl e')
    with Cons.prems have "e = e'" by simp
    with processColumn_errors[OF Inl Cons.prems(2)] show ?thesis by simp
  next
    case (Inr g)
    with Cons.prems have "processColumns h groupColumns groupRows g cols = Inl e" by simp
    from Cons.IH[OF this Cons.prems(2)] show ?thesis by auto
  qed
qed

lemma processGroups_errors:
  assumes "processGroups h columns groupColumns gs = Inl e"
    and "\<And>key groupRows. (key, groupRows) \<in> set gs \<Longrightarrow> groupRows \<noteq> []"
  shows "\<exists>col\<in>set columns. e = InvalidAggregationSyntax (trim col)"
  using assms
proof (induction gs)
  case Nil
  then show ?case by simp
next
  case (Cons g gs)
  obtain key groupRows where g: "g = (key, groupRows)" by (cases g)
  have ne: "groupRows \<noteq> []" using Cons.prems(2)[of key groupRows] g by simp
  show ?case
  proof (cases "processColumns h groupColumns groupRows (initGroupedRow groupColumns key) columns")
    case (Inl e')
    with Cons.prems(1) g have "e = e'" by simp
    with processColumns_errors[OF Inl ne] show ?thesis by simp
  next
    case (Inr r)
    with Cons.prems(1) g have "processGroups h columns groupColumns gs = Inl e"
      by (auto split: sum.splits)
    then show ?thesis using Cons.prems(2) by (intro Cons.IH) auto
  qed
qed

text \<open>
  The only error \<^verbatim>\<open>applyGroupBy\<close> can raise is the one for an aggregate expression that
  does not have the form \<^verbatim>\<open>FN(col)\<close>: whatever passes \<^verbatim>\<open>isAggregationColumn\<close> is parsed to
  one of the five known function names, so the \<^verbatim>\<open>default\<close> branch of
  \<^verbatim>\<open>calculateAggregation\<close> is never taken.
\<close>

theorem applyGroupBy_fails_only_on_syntax:
  assumes "applyGroupBy h data columns groupByClause = Inl e"
  shows "(\<exists>col\<in>set columns. e = InvalidAggregationSyntax (trim col))
       \<and> e \<noteq> UnsupportedAggregation functionName"
proof -
  let ?gcs = "map trim (split groupByClause '','')"
  from assms have "processGroups h columns ?gcs (buildGroups h ?gcs data) = Inl e"
    by (simp add: applyGroupBy_def Let_def)
  then have "\<exists>col\<in>set columns. e = InvalidAggregationSyntax (trim col)"
    by (rule processGroups_errors) (auto simp: buildGroups_eq dest: groupsOf_member(3))
  then show ?thesis by auto
qed


theorem applyGroupBy_fails_only_on_syntax_witness:
  "applyGroupBy refHost sampleProducts [''categoryID'', ''SUM()''] ''categoryID''
     = Inl (InvalidAggregationSyntax ''SUM()'')
   \<and> InvalidAggregationSyntax ''SUM()'' \<noteq> UnsupportedAggregation ''SUM''"
proof -
  have run: "applyGroupBy refHost sampleProducts [''categoryID'', ''SUM()''] ''categoryID''
     = Inl (InvalidAggregationSyntax ''SUM()'')"
    by code_simp
  from applyGroupBy_fails_only_on_syntax[OF run, of "''SUM''"] run show ?thesis by blast
qed

subsection \<open>Clauses at the end of the query text\<close>

lemma firstFrom_None: "(\<And>i. rmatch ci s r (i, []) = []) \<Longrightarrow> firstFrom ci r s is = None"
  by (induction "is") auto

lemma rmatch_Seq_dead: "(\<And>st'. rmatch ci s r2 st' = []) \<Longrightarrow> rmatch ci s (Seq r1 r2) st = []"
  by simp

lemma run_positions:
  assumes "1 \<le> k" and "k \<le> runLength CSpace s j"
  shows "isSpace (s ! (j + k - 1))" and "j + k \<le> length s"
proof -
  let ?t = "takeWhile isSpace (drop j s)"
  have k: "k \<le> length ?t" using assms(2) by (simp add: runLength_def inCls.simps[abs_def] cong: takeWhile_cong)
  then have lt: "k - 1 < length ?t" using assms(1) by simp
  have le: "length ?t \<le> length (drop j s)" by (rule length_takeWhile_le)
  then show "j + k \<le> length s" using k assms(1) by auto
  have "?t ! (k - 1) \<in> set ?t" using lt by simp
  then have "isSpace (?t ! (k - 1))" by (rule set_takeWhileD[THEN conjunct2])
  moreover have "?t ! (k - 1) = drop j s ! (k - 1)" using lt by (rule takeWhile_nth)
  moreover have "drop j s ! (k - 1) = s ! (j + (k - 1))" using lt le by simp
  ultimately show "isSpace (s ! (j + k - 1))" using assms(1) by simp
qed

lemma no_boundary:
  assumes "\<not> hasBoundary keywords query" and "1 \<le> k" and "k \<le> runLength CSpace query j"
  shows "\<not> boundaryAt keywords query (j + k)"
proof -
  from run_positions[OF assms(2,3)] have "isSpace (query ! (j + k - 1))" "j + k \<le> length query" .
  moreover have "j + k \<in> set [1 ..< Suc (length query)]" using assms(2) calculation(2) by auto
  ultimately show ?thesis using assms(1) unfolding hasBoundary_def list_ex_iff by blast
qed

lemma where_lookahead_dead:
  assumes "\<not> hasBoundary [''group'', ''order'', ''limit''] query"
  shows "rmatch True query
           (Ahead (Seq (Plus CSpace) (Alt groupByWords (Alt orderByWords (Alt (Lit ''limit'') Eos))))) st = []"
proof -
  obtain j caps where st: "st = (j, caps)" by (cases st)
  have "rmatch True query (Alt groupByWords (Alt orderByWords (Alt (Lit ''limit'') Eos))) (j + k, caps) = []"
    if "1 \<le> k" "k \<le> runLength CSpace query j" for k
    using no_boundary[OF assms that]
    by (auto simp: boundaryAt_def groupByWords_def orderByWords_def split: if_splits)
  then have "rmatch True query (Seq (Plus CSpace) (Alt groupByWords (Alt orderByWords (Alt (Lit ''limit'') Eos))))
               (j, caps) = []"
    by (auto simp: concat_eq_Nil_conv simp del: rmatch.simps(5,6) simp add: rmatch.simps(5))
  then show ?thesis by (simp add: st del: rmatch.simps(2,5,6))
qed


lemma group_lookahead_dead:
  assumes "\<not> hasBoundary [''order'', ''limit''] query"
  shows "rmatch True query
           (Ahead (Seq (Plus CSpace) (Alt orderByWords (Alt (Lit ''limit'') Eos)))) st = []"
proof -
  obtain j caps where st: "st = (j, caps)" by (cases st)
  have "rmatch True query (Alt orderByWords (Alt (Lit ''limit'') Eos)) (j + k, caps) = []"
    if "1 \<le> k" "k \<le> runLength CSpace query j" for k
    using no_boundary[OF assms that]
    by (auto simp: boundaryAt_def orderByWords_def split: if_splits)
  then have "rmatch True query (Seq (Plus CSpace) (Alt orderByWords (Alt (Lit ''limit'') Eos)))
               (j, caps) = []"
    by (auto simp: concat_eq_Nil_conv simp del: rmatch.simps(5,6) simp add: rmatch.simps(5))
  then show ?thesis by (simp add: st del: rmatch.simps(2,5,6))
qed

lemma whereRe_no_boundary:
  assumes "\<not> hasBoundary [''group'', ''order'', ''limit''] query"
  shows "matchRe True whereRe query = None"
  unfolding matchRe_def whereRe_def
  by (intro firstFrom_None rmatch_Seq_dead where_lookahead_dead assms)

lemma groupByRe_no_boundary:
  assumes "\<not> hasBoundary [''order'', ''limit''] query"
  shows "matchRe True groupByRe query = None"
  unfolding matchRe_def groupByRe_def
  by (intro firstFrom_None rmatch_Seq_dead group_lookahead_dead assms)

text \<open>
  A WHERE clause is applied only if the query has white space followed by \<^verbatim>\<open>group\<close>,
  \<^verbatim>\<open>order\<close>, \<^verbatim>\<open>limit\<close> or the end of the text, and a GROUP BY clause only if it has
  white space followed by \<^verbatim>\<open>order\<close>, \<^verbatim>\<open>limit\<close> or the end of the text.  A query that
  ends with its WHERE or GROUP BY clause, with no white space behind it, is run as if
  the clause were not there.
\<close>

theorem clause_without_boundary_is_ignored:
  "(\<not> hasBoundary [''group'', ''order'', ''limit''] query \<longrightarrow> whereStage h query st = st)
   \<and> (\<not> hasBoundary [''order'', ''limit''] query \<longrightarrow>
        groupStage h query columns st = Inr st \<and> matchRe True groupByRe query = None)"
  by (simp add: whereStage_def groupStage_def whereRe_no_boundary groupByRe_no_boundary)

theorem clause_without_boundary_is_ignored_witness:
  "\<not> hasBoundary [''group'', ''order'', ''limit''] ''SELECT * FROM products WHERE unitPrice > 20''
   \<and> resultRows (executeQuery sampleProvider refHost newEngine
        ''SELECT * FROM products WHERE unitPrice > 20'') = Inr sampleProducts
   \<and> \<not> hasBoundary [''order'', ''limit''] ''SELECT categoryID, COUNT(*) FROM products GROUP BY categoryID''
   \<and> resultRows (executeQuery sampleProvider refHost newEngine
        ''SELECT categoryID, COUNT(*) FROM products GROUP BY categoryID'')
       = Inr [[(''categoryID'', JNum (Fin 1))], [(''categoryID'', JNum (Fin 1))]]
   \<and> whereStage refHost ''SELECT * FROM products WHERE unitPrice > 20'' (newEngine, 0) = (newEngine, 0)
   \<and> groupStage refHost ''SELECT categoryID, COUNT(*) FROM products GROUP BY categoryID''
        [''categoryID'', ''COUNT(*)''] (newEngine, 0) = Inr (newEngine, 0)"
proof -
  have w: "\<not> hasBoundary [''group'', ''order'', ''limit''] ''SELECT * FROM products WHERE unitPrice > 20''"
    by code_simp
  have g: "\<not> hasBoundary [''order'', ''limit''] ''SELECT categoryID, COUNT(*) FROM products GROUP BY categoryID''"
    by code_simp
  have rw: "resultRows (executeQuery sampleProvider refHost newEngine
        ''SELECT * FROM products WHERE unitPrice > 20'') = Inr sampleProducts"
    by code_simp
  have rg: "resultRows (executeQuery sampleProvider refHost newEngine
        ''SELECT categoryID, COUNT(*) FROM products GROUP BY categoryID'')
       = Inr [[(''categoryID'', JNum (Fin 1))], [(''categoryID'', JNum (Fin 1))]]"
    by code_simp
  from clause_without_boundary_is_ignored[where query = "''SELECT * FROM products WHERE unitPrice > 20''"
      and h = refHost and st = "(newEngine, 0)"] w
  have sw: "whereStage refHost ''SELECT * FROM products WHERE unitPrice > 20'' (newEngine, 0) = (newEngine, 0)"
    by blast
  from clause_without_boundary_is_ignored[where
      query = "''SELECT categoryID, COUNT(*) FROM products GROUP BY categoryID''" and h = refHost
      and columns = "[''categoryID'', ''COUNT(*)'']" and st = "(newEngine, 0)"] g
  have sg: "groupStage refHost ''SELECT categoryID, COUNT(*) FROM products GROUP BY categoryID''
        [''categoryID'', ''COUNT(*)''] (newEngine, 0) = Inr (newEngine, 0)"
    by blast
  from w rw g rg sw sg show ?thesis by (intro conjI)
qed

end
